theory Spec2Isabelle
  imports Complex_Main "HOL-Library.Char_ord" "HOL-Library.List_Lexorder"
begin

section \<open>Python values and exceptions\<close>

text \<open>
  The repository is one file holding three programs: the training notebook, the Flask
  scoring service (\<open>app.py\<close>) and a Streamlit dashboard. Python floats are modelled
  by \<^typ>\<open>real\<close> (rounding is not modelled), a Python \<open>str\<close> by \<^typ>\<open>string\<close>,
  and every exception the code can meet is a value of \<open>py_error\<close>: a function that
  can raise returns \<open>py_error + 'a\<close> with \<open>Inl\<close> for the exception.
\<close>

datatype py_error =
  AttributeError | TypeError | ValueError | KeyError | FileNotFoundError | LookupError
  | RuntimeError

definition bind_err :: "py_error + 'a \<Rightarrow> ('a \<Rightarrow> py_error + 'b) \<Rightarrow> py_error + 'b" where
  "bind_err r f = (case r of Inl e \<Rightarrow> Inl e | Inr x \<Rightarrow> f x)"

text \<open>A list of results is a result: the first exception met, or all the values.\<close>

fun sequence_err :: "(py_error + 'a) list \<Rightarrow> py_error + 'a list" where
  "sequence_err [] = Inr []"
| "sequence_err (r # rs) =
     (case r of
        Inl e \<Rightarrow> Inl e
      | Inr x \<Rightarrow> (case sequence_err rs of Inl e \<Rightarrow> Inl e | Inr xs \<Rightarrow> Inr (x # xs)))"

text \<open>A value decoded from JSON, or any object handed to a function that expects a \<open>str\<close>.\<close>

datatype pyval =
  PyNone
  | PyBool bool
  | PyNum real
  | PyStr string
  | PyList "pyval list"
  | PyDict "(string \<times> pyval) list"

section \<open>Text normalisation\<close>

text \<open>
  What the code takes from the standard library, NLTK and TextBlob is a parameter:
  \<open>str.lower\<close>, the regular expression class \<open>\d\<close>, the separators of
  \<open>str.split()\<close>, the stop word list, \<open>WordNetLemmatizer.lemmatize\<close> (which raises
  \<open>LookupError\<close> when its corpus is not installed), the polarity of
  \<open>TextBlob(x).sentiment\<close> and the text \<open>str(x)\<close> of a float.
\<close>

record text_lib =
  str_lower :: "string \<Rightarrow> string"
  re_digit :: "char \<Rightarrow> bool"
  is_space :: "char \<Rightarrow> bool"
  stop_words :: "string list"
  lemmatize :: "string \<Rightarrow> py_error + string"
  polarity :: "string \<Rightarrow> real"
  float_repr :: "real \<Rightarrow> string"

text \<open>
  \<open>re.sub(f"[{string.punctuation}]", "", text)\<close>: the 32 ASCII punctuation characters are
  pasted between brackets unescaped, so the backslash of \<open>string.punctuation\<close> escapes the
  closing bracket that follows it and is not itself a member of the class. The class holds
  the codes 33-47, 58-64, 91, 93-96 and 123-126.
\<close>

definition in_punct_class :: "char \<Rightarrow> bool" where
  "in_punct_class c =
     (let n = (of_char c :: nat)
      in (33 \<le> n \<and> n \<le> 47) \<or> (58 \<le> n \<and> n \<le> 64) \<or> n = 91
         \<or> (93 \<le> n \<and> n \<le> 96) \<or> (123 \<le> n \<and> n \<le> 126))"

text \<open>\<open>str.split()\<close> with no argument: the maximal runs of non-separators, in order.\<close>

fun split_acc :: "(char \<Rightarrow> bool) \<Rightarrow> string \<Rightarrow> string \<Rightarrow> string list" where
  "split_acc sp cur [] = (if cur = [] then [] else [cur])"
| "split_acc sp cur (c # cs) =
     (if sp c then (if cur = [] then split_acc sp [] cs else cur # split_acc sp [] cs)
      else split_acc sp (cur @ [c]) cs)"

definition py_split :: "text_lib \<Rightarrow> string \<Rightarrow> string list" where
  "py_split L s = split_acc (is_space L) [] s"

text \<open>\<open>" ".join(words)\<close>.\<close>

fun join_sp :: "string list \<Rightarrow> string" where
  "join_sp [] = []"
| "join_sp [w] = w"
| "join_sp (w # ws) = w @ '' '' @ join_sp ws"

text \<open>
  \<open>[lemmatizer.lemmatize(word) for word in words if word not in stop_words]\<close>: the
  comprehension stops at the first word whose lemmatisation raises.
\<close>

fun lemmatize_words :: "text_lib \<Rightarrow> string list \<Rightarrow> py_error + string list" where
  "lemmatize_words L [] = Inr []"
| "lemmatize_words L (w # ws) =
     (if w \<in> set (stop_words L) then lemmatize_words L ws
      else (case lemmatize L w of
              Inl e \<Rightarrow> Inl e
            | Inr w' \<Rightarrow> (case lemmatize_words L ws of
                           Inl e \<Rightarrow> Inl e
                         | Inr ws' \<Rightarrow> Inr (w' # ws'))))"

text \<open>
  The five statements that both \<open>clean_text\<close> functions share. \<open>text.lower()\<close> raises
  \<open>AttributeError\<close> on anything that is not a \<open>str\<close>.
\<close>

definition clean_steps :: "text_lib \<Rightarrow> pyval \<Rightarrow> py_error + string" where
  "clean_steps L text =
     (case text of
        PyStr s \<Rightarrow>
          (let t1 = str_lower L s;
               t2 = filter (\<lambda>c. \<not> in_punct_class c) t1;
               t3 = filter (\<lambda>c. \<not> re_digit L c) t2;
               words = py_split L t3
           in (case lemmatize_words L words of
                 Inl e \<Rightarrow> Inl e
               | Inr ws \<Rightarrow> Inr (join_sp ws)))
      | _ \<Rightarrow> Inl AttributeError)"

text \<open>
  The notebook's \<open>clean_text\<close> (lines 80-90) wraps the steps in \<open>try\<close> and returns
  \<open>""\<close> from the handler; the service's \<open>clean_text\<close> (lines 257-263) has no handler.
\<close>

definition clean_text :: "text_lib \<Rightarrow> pyval \<Rightarrow> string" where
  "clean_text L text = (case clean_steps L text of Inl e \<Rightarrow> [] | Inr s \<Rightarrow> s)"

definition clean_text_app :: "text_lib \<Rightarrow> pyval \<Rightarrow> py_error + string" where
  "clean_text_app L text = clean_steps L text"

section \<open>Embedding averaging\<close>

text \<open>
  The key-to-vector table \<open>w2v_model.wv\<close> is an association list. \<open>np.mean(vectors,
  axis=0)\<close> stacks the vectors as rows and needs them to have one length; it adds the rows
  and divides by their number. It is only called on a non-empty list, given here as its
  first row and the rest.
\<close>

type_synonym w2v = "(string \<times> real list) list"

definition vec_add :: "real list \<Rightarrow> real list \<Rightarrow> real list" where
  "vec_add u v = map2 (+) u v"

definition np_mean_axis0 :: "real list \<Rightarrow> real list list \<Rightarrow> py_error + real list" where
  "np_mean_axis0 v rest =
     (if list_all (\<lambda>u. length u = length v) rest
      then Inr (map (\<lambda>s. s / real (Suc (length rest))) (foldl vec_add v rest))
      else Inl ValueError)"

definition wv_vectors :: "w2v \<Rightarrow> string list \<Rightarrow> real list list" where
  "wv_vectors wv words = concat (map (\<lambda>w. case map_of wv w of None \<Rightarrow> [] | Some v \<Rightarrow> [v]) words)"

definition get_w2v_vector :: "text_lib \<Rightarrow> w2v \<Rightarrow> string \<Rightarrow> py_error + real list" where
  "get_w2v_vector L wv text =
     (case wv_vectors wv (py_split L text) of
        [] \<Rightarrow> Inr (replicate 100 0)
      | v # rest \<Rightarrow> np_mean_axis0 v rest)"

text \<open>
  The specification's words for the same step: the vectors of the tokens that are present
  in the table, in the order of the tokens, and their arithmetic mean in one coordinate.
\<close>

definition present_vectors :: "w2v \<Rightarrow> string list \<Rightarrow> real list list" where
  "present_vectors wv words =
     map (\<lambda>w. the (map_of wv w)) (filter (\<lambda>w. map_of wv w \<noteq> None) words)"

definition mean_at :: "real list list \<Rightarrow> nat \<Rightarrow> real" where
  "mean_at vs i = sum_list (map (\<lambda>v. v ! i) vs) / real (length vs)"

section \<open>The scoring service\<close>

text \<open>
  \<open>StandardScaler.transform\<close>: subtract the fitted mean and divide by the fitted scale,
  column by column; a row of another width is refused with \<open>ValueError\<close>.
\<close>

record scaler_state =
  sc_mean :: "real list"
  sc_scale :: "real list"

definition scaler_transform :: "scaler_state \<Rightarrow> real list \<Rightarrow> py_error + real list" where
  "scaler_transform sc x =
     (if length x = length (sc_mean sc)
      then Inr (map (\<lambda>(xi, m, s). (xi - m) / s) (zip x (zip (sc_mean sc) (sc_scale sc))))
      else Inl ValueError)"

text \<open>
  A fitted classifier is its \<open>predict\<close> on one row, which can raise (a row of the wrong
  width); a fitted TF-IDF vectoriser is \<open>transform([text]).toarray().flatten()\<close>.
\<close>

type_synonym classifier = "real list \<Rightarrow> py_error + int"
type_synonym tfidf_vectorizer = "string \<Rightarrow> real list"

text \<open>
  The files a training run can leave behind, each absent or holding the object of its kind.
  The notebook writes \<open>escalation_model.pkl\<close> only (line 212); the service names three more
  files (lines 249, 267, 275). No line of either program names a file for the label
  encoders.
\<close>

record artifact_bundle =
  escalation_model_pkl :: "classifier option"
  scaler_pkl :: "scaler_state option"
  w2v_model_pkl :: "w2v option"
  tfidf_vectorizer_pkl :: "tfidf_vectorizer option"
  label_encoders_pkl :: "(string \<times> string list) list option"

text \<open>The module-level names of \<open>app.py\<close> after start-up.\<close>

record app_state =
  app_model :: classifier
  app_scaler :: "scaler_state option"
  app_w2v_model :: "w2v option"
  app_tfidf :: "tfidf_vectorizer option"

text \<open>
  Start-up (lines 247-275): \<open>joblib.load("escalation_model.pkl")\<close> raises when the file
  is absent. The three other loads stand in the first branch of a conditional expression
  whose condition is the constant \<open>False\<close>, as in
  \<open>joblib.load("scaler.pkl") if False else None\<close>.
\<close>

definition load_app :: "artifact_bundle \<Rightarrow> py_error + app_state" where
  "load_app files =
     (case escalation_model_pkl files of
        None \<Rightarrow> Inl FileNotFoundError
      | Some m \<Rightarrow>
          Inr \<lparr> app_model = m,
                app_scaler = (if False then scaler_pkl files else None),
                app_w2v_model = (if False then w2v_model_pkl files else None),
                app_tfidf = (if False then tfidf_vectorizer_pkl files else None) \<rparr>)"

text \<open>\<open>data.get(key, default)\<close>; only a dict has \<open>get\<close>.\<close>

definition dict_get :: "pyval \<Rightarrow> string \<Rightarrow> pyval \<Rightarrow> py_error + pyval" where
  "dict_get data k d =
     (case data of
        PyDict kvs \<Rightarrow> Inr (case map_of kvs k of None \<Rightarrow> d | Some v \<Rightarrow> v)
      | _ \<Rightarrow> Inl AttributeError)"

text \<open>\<open>TextBlob(text).sentiment.polarity\<close>; \<open>TextBlob\<close> refuses what is not a \<open>str\<close>.\<close>

definition sentiment_of :: "text_lib \<Rightarrow> pyval \<Rightarrow> py_error + real" where
  "sentiment_of L text = (case text of PyStr s \<Rightarrow> Inr (polarity L s) | _ \<Rightarrow> Inl TypeError)"

text \<open>
  \<open>np.array(numeric_features)\<close> (line 315) for the sentiment and the two categorical
  fields as the request gave them. A JSON array among them makes the sequence ragged, which
  NumPy (1.24 and later) refuses with \<open>ValueError\<close>; any other value becomes an entry of
  the array, and a text, a null or an object among the three gives an array of strings or
  of objects where numbers alone give an array of floats. The entries are kept as the
  values they come from.
\<close>

definition is_array :: "pyval \<Rightarrow> bool" where
  "is_array v = (case v of PyList xs \<Rightarrow> True | _ \<Rightarrow> False)"

definition np_array :: "pyval list \<Rightarrow> py_error + pyval list" where
  "np_array xs = (if list_ex is_array xs then Inl ValueError else Inr xs)"

text \<open>
  Lines 283-316 of \<open>predict\<close>, in the order in which they run: the text, its cleaning and
  sentiment, the two text vectors (zeros when the object is \<open>None\<close>), the two categorical
  fields with default 0, and the concatenation \<open>np.concatenate([np.array(numeric_features),
  w2v_vec, tfidf_vec])\<close>.
\<close>

definition feature_array :: "text_lib \<Rightarrow> app_state \<Rightarrow> pyval \<Rightarrow> py_error + pyval list" where
  "feature_array L A data =
     bind_err (dict_get data ''complaint_description'' (PyStr [])) (\<lambda>complaint_text.
     bind_err (clean_text_app L complaint_text) (\<lambda>cleaned.
     bind_err (sentiment_of L complaint_text) (\<lambda>sentiment.
     bind_err (case app_w2v_model A of
                 Some wv \<Rightarrow> get_w2v_vector L wv cleaned
               | None \<Rightarrow> Inr (replicate 100 0)) (\<lambda>w2v_vec.
     bind_err (Inr (case app_tfidf A of
                      Some t \<Rightarrow> t cleaned
                    | None \<Rightarrow> replicate 500 0)) (\<lambda>tfidf_vec.
     bind_err (dict_get data ''complaint_type'' (PyNum 0)) (\<lambda>complaint_type.
     bind_err (dict_get data ''transaction_frequency'' (PyNum 0)) (\<lambda>transaction_frequency.
     bind_err (np_array [PyNum sentiment, complaint_type, transaction_frequency]) (\<lambda>numeric.
       Inr (numeric @ map PyNum w2v_vec @ map PyNum tfidf_vec)))))))))"

text \<open>
  \<open>scaler.transform\<close> and \<open>model.predict\<close> validate the array they are given and work
  on it as a matrix of floats: a number is taken as it is, a boolean as 1 or 0, and an
  array that holds a text, a null or an object is refused with \<open>ValueError\<close>. Nothing
  else can raise between line 316 and that validation, so the array read as floats is what
  both calls start from.
\<close>

definition as_float :: "pyval \<Rightarrow> py_error + real" where
  "as_float v =
     (case v of
        PyNum r \<Rightarrow> Inr r
      | PyBool b \<Rightarrow> Inr (if b then 1 else 0)
      | _ \<Rightarrow> Inl ValueError)"

definition feature_vector :: "text_lib \<Rightarrow> app_state \<Rightarrow> pyval \<Rightarrow> py_error + real list" where
  "feature_vector L A data =
     bind_err (feature_array L A data) (\<lambda>arr. sequence_err (map as_float arr))"

text \<open>Lines 318-320: \<open>if scaler: feature_vector = scaler.transform(feature_vector)\<close>.\<close>

definition served_vector :: "text_lib \<Rightarrow> app_state \<Rightarrow> pyval \<Rightarrow> py_error + real list" where
  "served_vector L A data =
     bind_err (feature_vector L A data) (\<lambda>fv.
       case app_scaler A of Some sc \<Rightarrow> scaler_transform sc fv | None \<Rightarrow> Inr fv)"

text \<open>
  The whole handler (lines 281-327): the body runs inside \<open>try\<close>, and the handler of
  \<open>Exception\<close> answers with the error's text, so every request is answered with a
  prediction or with an error.
\<close>

datatype response = Escalated int | ErrorResponse py_error

definition predict :: "text_lib \<Rightarrow> app_state \<Rightarrow> pyval \<Rightarrow> response" where
  "predict L A data =
     (case bind_err (served_vector L A data) (app_model A) of
        Inl e \<Rightarrow> ErrorResponse e
      | Inr p \<Rightarrow> Escalated p)"

section \<open>The training notebook: the table and its preparation\<close>

text \<open>
  The table read by \<open>pd.read_csv\<close> is the list of its columns in file order, each a name
  and its cells; all columns have one length. A cell is a number, a text or missing.
\<close>

datatype cell = NaN | Num real | Str string

type_synonym frame = "(string \<times> cell list) list"

text \<open>\<open>df[c]\<close> raises \<open>KeyError\<close> for an unknown column; \<open>df[c] = cells\<close> replaces the
  column where it stands, or appends a new one.\<close>

definition get_col :: "frame \<Rightarrow> string \<Rightarrow> py_error + cell list" where
  "get_col df c = (case map_of df c of None \<Rightarrow> Inl KeyError | Some cells \<Rightarrow> Inr cells)"

definition set_col :: "frame \<Rightarrow> string \<Rightarrow> cell list \<Rightarrow> frame" where
  "set_col df c cells =
     (if c \<in> set (map fst df)
      then map (\<lambda>(n, old). if n = c then (n, cells) else (n, old)) df
      else df @ [(c, cells)])"

definition drop_cols :: "frame \<Rightarrow> string list \<Rightarrow> py_error + frame" where
  "drop_cols df names =
     (if list_all (\<lambda>n. n \<in> set (map fst df)) names
      then Inr (filter (\<lambda>(n, cells). n \<notin> set names) df)
      else Inl KeyError)"

text \<open>
  \<open>LabelEncoder\<close> (scikit-learn 0.24 and later): the classes are the distinct values in
  sorted order, a missing value last; texts and numbers in one column cannot be sorted.
  \<open>transform\<close> gives each value its position among the classes and refuses a value that is
  not a class.
\<close>

definition le_fit :: "cell list \<Rightarrow> py_error + cell list" where
  "le_fit col =
     (let strs = concat (map (\<lambda>c. case c of Str s \<Rightarrow> [s] | _ \<Rightarrow> []) col);
          nums = concat (map (\<lambda>c. case c of Num r \<Rightarrow> [r] | _ \<Rightarrow> []) col)
      in if strs \<noteq> [] \<and> nums \<noteq> [] then Inl TypeError
         else Inr (map Str (sort (remdups strs)) @ map Num (sort (remdups nums))
                   @ (if NaN \<in> set col then [NaN] else [])))"

fun index_of :: "'a list \<Rightarrow> 'a \<Rightarrow> nat option" where
  "index_of [] x = None"
| "index_of (y # ys) x = (if x = y then Some 0 else map_option Suc (index_of ys x))"

definition le_transform :: "cell list \<Rightarrow> cell list \<Rightarrow> py_error + cell list" where
  "le_transform classes col =
     (if list_all (\<lambda>c. index_of classes c \<noteq> None) col
      then Inr (map (\<lambda>c. Num (real (the (index_of classes c)))) col)
      else Inl ValueError)"

text \<open>Lines 62-66: each of the two categorical columns is replaced by its codes, and its
  encoder is kept in \<open>label_encoders\<close>.\<close>

type_synonym label_encoders = "(string \<times> cell list) list"

definition encode_column :: "frame \<times> label_encoders \<Rightarrow> string \<Rightarrow> py_error + frame \<times> label_encoders" where
  "encode_column st col =
     bind_err (get_col (fst st) col) (\<lambda>cells.
     bind_err (le_fit cells) (\<lambda>classes.
     bind_err (le_transform classes cells) (\<lambda>codes.
       Inr (set_col (fst st) col codes, snd st @ [(col, classes)]))))"

definition label_encode :: "frame \<Rightarrow> py_error + frame \<times> label_encoders" where
  "label_encode df =
     bind_err (encode_column (df, []) ''complaint_type'') (\<lambda>st.
       encode_column st ''transaction_frequency'')"

text \<open>
  Line 69, \<open>df.fillna(df.median(), inplace=True)\<close>, as pandas 1.x runs it (pandas 2 raises
  \<open>TypeError\<close> on the text column): \<open>df.median()\<close> has an entry for each numeric column,
  the median of its present values, and none for a column that holds text; a column with
  no present value has no median to fill with.
\<close>

definition median :: "real list \<Rightarrow> real" where
  "median xs =
     (let s = sort xs; n = length s
      in if odd n then s ! (n div 2) else (s ! (n div 2 - 1) + s ! (n div 2)) / 2)"

definition present_values :: "cell list \<Rightarrow> real list" where
  "present_values cells = concat (map (\<lambda>c. case c of Num r \<Rightarrow> [r] | _ \<Rightarrow> []) cells)"

definition is_numeric_col :: "cell list \<Rightarrow> bool" where
  "is_numeric_col cells = list_all (\<lambda>c. case c of Str s \<Rightarrow> False | _ \<Rightarrow> True) cells"

definition col_median :: "cell list \<Rightarrow> real option" where
  "col_median cells =
     (if is_numeric_col cells \<and> present_values cells \<noteq> []
      then Some (median (present_values cells)) else None)"

definition fill_cells :: "real \<Rightarrow> cell list \<Rightarrow> cell list" where
  "fill_cells m cells = map (\<lambda>c. case c of NaN \<Rightarrow> Num m | _ \<Rightarrow> c) cells"

definition fillna_median :: "frame \<Rightarrow> frame" where
  "fillna_median df =
     map (\<lambda>(n, cells). (n, case col_median cells of None \<Rightarrow> cells | Some m \<Rightarrow> fill_cells m cells)) df"

text \<open>Lines 62-69 together.\<close>

definition prepare_table :: "frame \<Rightarrow> py_error + frame \<times> label_encoders" where
  "prepare_table df = bind_err (label_encode df) (\<lambda>st. Inr (fillna_median (fst st), snd st))"

section \<open>The training notebook: features\<close>

text \<open>
  The routines of gensim, scikit-learn, imbalanced-learn, Optuna and the boosting
  libraries are parameters, and each of them can raise: the table of a trained
  \<open>Word2Vec\<close> (which refuses an empty vocabulary with \<open>RuntimeError\<close>), the fitted
  \<open>TfidfVectorizer\<close>, \<open>SMOTE.fit_resample\<close>, \<open>StandardScaler.fit\<close>,
  \<open>train_test_split\<close>, the sampler of the study (the next parameters from the trials so
  far), the fit of a \<open>LGBMClassifier\<close>, the fit of the stacking classifier built from the
  tuned parameters, and the three metrics. A fitted model is its \<open>predict\<close> on a matrix;
  a label is a cell of the column \<open>escalated\<close>.
\<close>

record lgbm_params =
  num_leaves :: int
  max_depth :: int
  learning_rate :: real
  n_estimators :: int
  reg_lambda :: real
  reg_alpha :: real

record split_data =
  X_train :: "real list list"
  X_test :: "real list list"
  y_train :: "cell list"
  y_test :: "cell list"

type_synonym fitted_model = "real list list \<Rightarrow> py_error + cell list"

record ml_lib =
  w2v_train :: "string list list \<Rightarrow> py_error + w2v"
  tfidf_fit :: "string list \<Rightarrow> py_error + tfidf_vectorizer"
  smote_resample :: "real list list \<Rightarrow> cell list \<Rightarrow> py_error + real list list \<times> cell list"
  scaler_fit :: "real list list \<Rightarrow> py_error + scaler_state"
  train_test_split :: "real list list \<Rightarrow> cell list \<Rightarrow> py_error + split_data"
  suggest :: "(lgbm_params \<times> real) list \<Rightarrow> lgbm_params"
  lgbm_fit :: "lgbm_params \<Rightarrow> real list list \<Rightarrow> cell list \<Rightarrow> py_error + fitted_model"
  stack_fit :: "lgbm_params \<Rightarrow> real list list \<Rightarrow> cell list \<Rightarrow> py_error + fitted_model"
  f1_score :: "cell list \<Rightarrow> cell list \<Rightarrow> py_error + real"
  roc_auc_score :: "cell list \<Rightarrow> cell list \<Rightarrow> py_error + real"
  confusion_matrix :: "cell list \<Rightarrow> cell list \<Rightarrow> py_error + nat list list"

text \<open>\<open>astype(str)\<close> on a cell of the text column; a missing text becomes \<open>"nan"\<close>.\<close>

definition astype_str :: "text_lib \<Rightarrow> cell \<Rightarrow> string" where
  "astype_str L c = (case c of Str s \<Rightarrow> s | NaN \<Rightarrow> ''nan'' | Num r \<Rightarrow> float_repr L r)"

text \<open>The decimal numeral in \<open>f"w2v_{i}"\<close>.\<close>

fun str_of_nat :: "nat \<Rightarrow> string" where
  "str_of_nat n =
     (if n < 10 then [char_of (48 + n)]
      else str_of_nat (n div 10) @ [char_of (48 + n mod 10)])"

declare str_of_nat.simps [simp del]

text \<open>The column names of lines 114 and 119.\<close>

definition w2v_names :: "string list" where
  "w2v_names = map (\<lambda>i. ''w2v_'' @ str_of_nat i) [0..<100]"

definition tfidf_names :: "string list" where
  "tfidf_names = map (\<lambda>i. ''tfidf_'' @ str_of_nat i) [0..<500]"

text \<open>\<open>pd.DataFrame(rows, columns=names)\<close>: every row must have as many entries as there
  are names; the first name heads the first entries of the rows, and so on.\<close>

fun columns_of :: "string list \<Rightarrow> real list list \<Rightarrow> frame" where
  "columns_of [] rows = []"
| "columns_of (n # ns) rows = (n, map (\<lambda>r. Num (hd r)) rows) # columns_of ns (map tl rows)"

definition data_frame :: "real list list \<Rightarrow> string list \<Rightarrow> py_error + frame" where
  "data_frame rows names =
     (if list_all (\<lambda>r. length r = length names) rows
      then Inr (columns_of names rows)
      else Inl ValueError)"

text \<open>The rows of a table as the matrix of floats that \<open>fit_resample\<close> validates on
  line 136; it refuses a missing value or a text.\<close>

definition cell_float :: "cell \<Rightarrow> py_error + real" where
  "cell_float c = (case c of Num r \<Rightarrow> Inr r | _ \<Rightarrow> Inl ValueError)"

definition n_rows :: "frame \<Rightarrow> nat" where
  "n_rows df = (case df of [] \<Rightarrow> 0 | (n, cells) # rest \<Rightarrow> length cells)"

definition frame_rows :: "frame \<Rightarrow> py_error + real list list" where
  "frame_rows df =
     sequence_err (map (\<lambda>i. sequence_err (map (\<lambda>(n, cells). cell_float (cells ! i)) df))
                       [0..<n_rows df])"

record features =
  f_label_encoders :: label_encoders
  f_w2v :: w2v
  f_tfidf :: tfidf_vectorizer
  f_columns :: "string list"
  f_X :: "real list list"
  f_y :: "cell list"

text \<open>
  Lines 94-132, on the prepared table. \<open>df["cleaned_text"] = ...\<close> and
  \<open>df["sentiment_score"] = ...\<close> overwrite the column of that name when the file has one
  and append it otherwise. The column \<open>w2v_features\<close> (line 113) holds arrays and is
  dropped on line 123 before anything reads it again: its arrays are kept as \<open>w2v_rows\<close>
  and its cells in the table are placeholders. The 100 and 500 text columns are appended
  last (line 122). The target is the column \<open>escalated\<close> as it stands.
\<close>

definition text_features :: "text_lib \<Rightarrow> ml_lib \<Rightarrow> frame \<times> label_encoders \<Rightarrow> py_error + features" where
  "text_features L M st =
     bind_err (get_col (fst st) ''complaint_description'') (\<lambda>desc.
       let texts = map (astype_str L) desc;
           cleaned = map (\<lambda>s. clean_text L (PyStr s)) texts;
           df3 = set_col (fst st) ''cleaned_text'' (map Str cleaned);
           df4 = set_col df3 ''sentiment_score'' (map (\<lambda>s. Num (polarity L s)) texts)
       in
     bind_err (w2v_train M (map (py_split L) cleaned)) (\<lambda>wv.
     bind_err (sequence_err (map (get_w2v_vector L wv) cleaned)) (\<lambda>w2v_rows.
     bind_err (data_frame w2v_rows w2v_names) (\<lambda>w2v_df.
     bind_err (tfidf_fit M cleaned) (\<lambda>tfidf.
     bind_err (data_frame (map tfidf cleaned) tfidf_names) (\<lambda>tfidf_df.
     bind_err (drop_cols (set_col df4 ''w2v_features'' (map (\<lambda>r. NaN) w2v_rows) @ w2v_df @ tfidf_df)
                 [''complaint_description'', ''cleaned_text'', ''w2v_features'']) (\<lambda>df6.
     bind_err (drop_cols df6 [''escalated'']) (\<lambda>X.
     bind_err (get_col df6 ''escalated'') (\<lambda>y.
     bind_err (frame_rows X) (\<lambda>rows.
       Inr \<lparr> f_label_encoders = snd st, f_w2v = wv, f_tfidf = tfidf,
             f_columns = map fst X, f_X = rows, f_y = y \<rparr>))))))))))"

text \<open>Lines 62-132: the preparation of the table, then the features.\<close>

definition build_features :: "text_lib \<Rightarrow> ml_lib \<Rightarrow> frame \<Rightarrow> py_error + features" where
  "build_features L M df = bind_err (prepare_table df) (text_features L M)"

section \<open>The training notebook: balancing, scaling, tuning, stacking, evaluation\<close>

text \<open>A finished trial: its parameters and the value \<open>objective\<close> returned for them.\<close>

record trial =
  trial_params :: lgbm_params
  trial_value :: real

text \<open>
  Lines 151-165. \<open>objective\<close> reads the global names \<open>X_train\<close>, \<open>y_train\<close>, \<open>X_test\<close>
  and \<open>y_test\<close> bound once on line 143: it fits on the first two, predicts the third and
  scores the prediction against the fourth.
\<close>

definition objective :: "ml_lib \<Rightarrow> split_data \<Rightarrow> trial list \<Rightarrow> py_error + trial" where
  "objective M S history =
     (let params = suggest M (map (\<lambda>t. (trial_params t, trial_value t)) history)
      in bind_err (lgbm_fit M params (X_train S) (y_train S)) (\<lambda>model.
         bind_err (model (X_test S)) (\<lambda>y_pred.
         bind_err (f1_score M (y_test S) y_pred) (\<lambda>value.
           Inr \<lparr> trial_params = params, trial_value = value \<rparr>))))"

text \<open>\<open>study.optimize(objective, n_trials=n)\<close>: one trial after the other, each seeing the
  trials before it; an exception of \<open>objective\<close> ends the study and leaves it.\<close>

fun optimize :: "(trial list \<Rightarrow> py_error + trial) \<Rightarrow> nat \<Rightarrow> trial list \<Rightarrow> py_error + trial list" where
  "optimize obj 0 history = Inr history"
| "optimize obj (Suc n) history = bind_err (obj history) (\<lambda>t. optimize obj n (history @ [t]))"

text \<open>\<open>study.best_params\<close>: the parameters of the first trial with the highest value.\<close>

fun best_trial :: "trial list \<Rightarrow> trial option" where
  "best_trial [] = None"
| "best_trial (t # ts) =
     (case best_trial ts of
        None \<Rightarrow> Some t
      | Some b \<Rightarrow> if trial_value b > trial_value t then Some b else Some t)"

record evaluation =
  eval_pred :: "cell list"
  eval_f1 :: real
  eval_auc :: real
  eval_cm :: "nat list list"

record tuned =
  tn_trials :: "trial list"
  tn_best_params :: lgbm_params
  tn_model :: fitted_model
  tn_evaluation :: evaluation

text \<open>Lines 167-197: the study of 30 trials, the stacking classifier fitted on the training
  split with the best parameters, and the final metrics.\<close>

definition tune_and_evaluate :: "ml_lib \<Rightarrow> split_data \<Rightarrow> py_error + tuned" where
  "tune_and_evaluate M S =
     bind_err (optimize (objective M S) 30 []) (\<lambda>trials.
       case best_trial trials of
         None \<Rightarrow> Inl ValueError
       | Some b \<Rightarrow>
           bind_err (stack_fit M (trial_params b) (X_train S) (y_train S)) (\<lambda>stack_model.
           bind_err (stack_model (X_test S)) (\<lambda>y_pred.
           bind_err (f1_score M (y_test S) y_pred) (\<lambda>f1.
           bind_err (roc_auc_score M (y_test S) y_pred) (\<lambda>auc.
           bind_err (confusion_matrix M (y_test S) y_pred) (\<lambda>cm.
             Inr \<lparr> tn_trials = trials, tn_best_params = trial_params b,
                   tn_model = stack_model,
                   tn_evaluation = \<lparr> eval_pred = y_pred, eval_f1 = f1, eval_auc = auc,
                                     eval_cm = cm \<rparr> \<rparr>))))))"

record training_run =
  run_features :: features
  run_scaler :: scaler_state
  run_X_scaled :: "real list list"
  run_split :: split_data
  run_tuned :: tuned

text \<open>
  The notebook from line 62 to line 197: features, balancing (line 136), scaling of the
  balanced matrix (line 140), the split (line 143), tuning and evaluation. Line 212 then
  writes the stacking classifier and nothing else: the scaler, the embedding table, the
  vectoriser and the label encoders stay in the memory of the notebook.
\<close>

definition run_training :: "text_lib \<Rightarrow> ml_lib \<Rightarrow> frame \<Rightarrow> py_error + training_run" where
  "run_training L M df =
     bind_err (build_features L M df) (\<lambda>F.
     bind_err (smote_resample M (f_X F) (f_y F)) (\<lambda>balanced.
     bind_err (scaler_fit M (fst balanced)) (\<lambda>scaler.
     bind_err (sequence_err (map (scaler_transform scaler) (fst balanced))) (\<lambda>X_scaled.
     bind_err (train_test_split M X_scaled (snd balanced)) (\<lambda>S.
     bind_err (tune_and_evaluate M S) (\<lambda>T.
       Inr \<lparr> run_features = F, run_scaler = scaler, run_X_scaled = X_scaled, run_split = S,
             run_tuned = T \<rparr>))))))"

section \<open>The stacking ensemble of the specification\<close>

text \<open>
  Modelled from the spec: the StackingEnsemble of section 4.9, with its three states, its
  fit protocol and its predict protocol. The repository has no code of its own for it: the
  notebook hands three named estimators to scikit-learn's \<open>StackingClassifier\<close> with
  \<open>cv=5\<close> (lines 182-186) and calls its \<open>fit\<close> and \<open>predict\<close>.
\<close>

datatype ensemble_phase = Untrained | Fitting | Fitted

datatype ensemble_error = PreconditionError

type_synonym sample = "real list \<times> int"
type_synonym base_learner = "sample list \<Rightarrow> real list \<Rightarrow> real"
type_synonym meta_learner = "sample list \<Rightarrow> real list \<Rightarrow> int"

record stacking_ensemble =
  se_phase :: ensemble_phase
  se_learners :: "(string \<times> base_learner) list"
  se_meta :: meta_learner
  se_k :: nat
  se_fitted_ids :: "string list"
  se_fitted_base :: "(string \<times> (real list \<Rightarrow> real)) list"
  se_fitted_meta :: "real list \<Rightarrow> int"

text \<open>Modelled from the spec: a new ensemble is untrained and has captured nothing.\<close>

definition new_ensemble :: "(string \<times> base_learner) list \<Rightarrow> meta_learner \<Rightarrow> nat \<Rightarrow> stacking_ensemble" where
  "new_ensemble learners meta k =
     \<lparr> se_phase = Untrained, se_learners = learners, se_meta = meta, se_k = k,
       se_fitted_ids = [], se_fitted_base = [], se_fitted_meta = (\<lambda>row. 0) \<rparr>"

text \<open>Modelled from the spec: sample \<open>i\<close> lies in fold \<open>i mod k\<close>; every base learner is
  trained on the other folds and predicts the sample, which gives its out-of-fold row.\<close>

definition training_folds :: "nat \<Rightarrow> sample list \<Rightarrow> nat \<Rightarrow> sample list" where
  "training_folds k data i =
     map snd (filter (\<lambda>(j, s). j mod k \<noteq> i mod k) (zip [0..<length data] data))"

definition out_of_fold :: "(string \<times> base_learner) list \<Rightarrow> nat \<Rightarrow> sample list \<Rightarrow> sample list" where
  "out_of_fold learners k data =
     map (\<lambda>(i, (x, y)). (map (\<lambda>(name, l). l (training_folds k data i) x) learners, y))
         (zip [0..<length data] data)"

text \<open>Modelled from the spec: fit enters the state fitting; when it completes, the ordered
  identifiers are captured, every base learner has been trained once more on all the data,
  the meta-learner has been trained on the out-of-fold rows, and the state is fitted.\<close>

definition begin_fit :: "stacking_ensemble \<Rightarrow> stacking_ensemble" where
  "begin_fit E = E \<lparr> se_phase := Fitting \<rparr>"

definition finish_fit :: "stacking_ensemble \<Rightarrow> sample list \<Rightarrow> stacking_ensemble" where
  "finish_fit E data =
     E \<lparr> se_phase := Fitted,
         se_fitted_ids := map fst (se_learners E),
         se_fitted_base := map (\<lambda>(name, l). (name, l data)) (se_learners E),
         se_fitted_meta := se_meta E (out_of_fold (se_learners E) (se_k E) data) \<rparr>"

definition se_fit :: "stacking_ensemble \<Rightarrow> sample list \<Rightarrow> stacking_ensemble" where
  "se_fit E data = finish_fit (begin_fit E) data"

text \<open>Modelled from the spec: predict is refused outside the state fitted; in it, the
  fully trained base learners are run in their fitted order and the meta-learner is fed
  their row. The identifiers used are returned beside the output.\<close>

definition se_predict :: "stacking_ensemble \<Rightarrow> real list \<Rightarrow> ensemble_error + string list \<times> int" where
  "se_predict E x =
     (if se_phase E = Fitted
      then Inr (map fst (se_fitted_base E),
                se_fitted_meta E (map (\<lambda>(name, m). m x) (se_fitted_base E)))
      else Inl PreconditionError)"

text \<open>The ensemble of lines 182-186: the estimators \<open>lgbm\<close>, \<open>xgb\<close> and \<open>cat\<close>, five folds.\<close>

definition notebook_ensemble :: "base_learner \<Rightarrow> base_learner \<Rightarrow> base_learner \<Rightarrow> meta_learner \<Rightarrow> stacking_ensemble" where
  "notebook_ensemble lgb_model xgb_model cat_model final_estimator =
     new_ensemble [(''lgbm'', lgb_model), (''xgb'', xgb_model), (''cat'', cat_model)]
       final_estimator 5"

section \<open>A concrete library and concrete artefacts\<close>

text \<open>
  An ASCII instance of the text library, a two-word embedding table, a fitted scaler and
  the files of a service, on which the definitions above are evaluated.
\<close>

definition demo_lib :: text_lib where
  "demo_lib =
     \<lparr> str_lower = map (\<lambda>c. if 65 \<le> (of_char c :: nat) \<and> (of_char c :: nat) \<le> 90
                              then char_of (of_char c + (32::nat)) else c),
       re_digit = (\<lambda>c. 48 \<le> (of_char c :: nat) \<and> (of_char c :: nat) \<le> 57),
       is_space = (\<lambda>c. c \<in> set [CHR '' '', CHR 9, CHR 10, CHR 11, CHR 12, CHR 13]),
       stop_words = [''the'', ''is'', ''a'', ''my''],
       lemmatize = (\<lambda>w. Inr w),
       polarity = (\<lambda>s. if s = [] then 0 else 1 / 2),
       float_repr = (\<lambda>r. ''0.0'') \<rparr>"

definition demo_wv :: w2v where
  "demo_wv = [(''refund'', replicate 100 2), (''late'', replicate 100 4)]"

definition demo_model :: classifier where
  "demo_model x = (if length x = 603 then Inr (if 0 < x ! 0 then 1 else 0) else Inl ValueError)"

definition demo_scaler :: scaler_state where
  "demo_scaler = \<lparr> sc_mean = replicate 603 1, sc_scale = replicate 603 2 \<rparr>"

definition full_bundle :: artifact_bundle where
  "full_bundle =
     \<lparr> escalation_model_pkl = Some demo_model,
       scaler_pkl = Some demo_scaler,
       w2v_model_pkl = Some demo_wv,
       tfidf_vectorizer_pkl = Some (\<lambda>s. replicate 500 (1 / 4)),
       label_encoders_pkl = Some [(''complaint_type'', [''billing'', ''fraud''])] \<rparr>"

definition model_only_bundle :: artifact_bundle where
  "model_only_bundle =
     \<lparr> escalation_model_pkl = Some demo_model,
       scaler_pkl = None,
       w2v_model_pkl = None,
       tfidf_vectorizer_pkl = None,
       label_encoders_pkl = None \<rparr>"

definition no_model_bundle :: artifact_bundle where
  "no_model_bundle = full_bundle \<lparr> escalation_model_pkl := None \<rparr>"

definition demo_app :: app_state where
  "demo_app = \<lparr> app_model = demo_model, app_scaler = None, app_w2v_model = None, app_tfidf = None \<rparr>"

text \<open>A service that holds all four objects, as a start-up that loaded them would leave it.\<close>

definition loaded_app :: app_state where
  "loaded_app = \<lparr> app_model = demo_model, app_scaler = Some demo_scaler,
                  app_w2v_model = Some demo_wv,
                  app_tfidf = Some (\<lambda>s. replicate 500 (1 / 4)) \<rparr>"

definition demo_request :: pyval where
  "demo_request = PyDict [(''complaint_description'', PyStr ''My REFUND is late''),
                          (''complaint_type'', PyNum 3), (''transaction_frequency'', PyNum 1),
                          (''resolution_time_days'', PyNum 12)]"

text \<open>The same complaint without its two categorical fields, and with a category sent as
  the text of a category that no training table held.\<close>

definition demo_short_request :: pyval where
  "demo_short_request = PyDict [(''complaint_description'', PyStr ''My REFUND is late'')]"

definition unseen_request :: pyval where
  "unseen_request = PyDict [(''complaint_description'', PyStr ''My REFUND is late''),
                            (''complaint_type'', PyStr ''unknown_category_never_seen''),
                            (''transaction_frequency'', PyNum 1)]"

definition array_request :: pyval where
  "array_request = PyDict [(''complaint_description'', PyStr ''My REFUND is late''),
                           (''complaint_type'', PyList [PyNum 3]),
                           (''transaction_frequency'', PyNum 1)]"

text \<open>
  A table of three complaints with a missing text, a missing category, a missing
  frequency, a numeric column with a missing value and a numeric column that is empty;
  and the same table with the missing resolution time written out as the median.
\<close>

definition demo_frame :: frame where
  "demo_frame =
     [(''complaint_description'', [Str ''My REFUND is late'', NaN, Str ''late refund'']),
      (''complaint_type'', [Str ''fraud'', NaN, Str ''billing'']),
      (''transaction_frequency'', [Num 1, Num 5, NaN]),
      (''resolution_time_days'', [Num 4, NaN, Num 10]),
      (''branch_code'', [NaN, NaN, NaN]),
      (''escalated'', [Num 1, Num 0, Num 0])]"

definition demo_frame_filled :: frame where
  "demo_frame_filled =
     [(''complaint_description'', [Str ''My REFUND is late'', NaN, Str ''late refund'']),
      (''complaint_type'', [Str ''fraud'', NaN, Str ''billing'']),
      (''transaction_frequency'', [Num 1, Num 5, NaN]),
      (''resolution_time_days'', [Num 4, Num 7, Num 10]),
      (''branch_code'', [NaN, NaN, NaN]),
      (''escalated'', [Num 1, Num 0, Num 0])]"

definition demo_prepared :: frame where
  "demo_prepared =
     [(''complaint_description'', [Str ''My REFUND is late'', NaN, Str ''late refund'']),
      (''complaint_type'', [Num 1, Num 2, Num 0]),
      (''transaction_frequency'', [Num 0, Num 1, Num 2]),
      (''resolution_time_days'', [Num 4, Num 7, Num 10]),
      (''branch_code'', [NaN, NaN, NaN]),
      (''escalated'', [Num 1, Num 0, Num 0])]"

definition demo_encoders :: label_encoders where
  "demo_encoders =
     [(''complaint_type'', [Str ''billing'', Str ''fraud'', NaN]),
      (''transaction_frequency'', [Num 1, Num 5, NaN])]"

text \<open>
  A table on which the notebook can run: 20 complaints, six of them escalated, whose text
  holds 500 distinct words (the four-letter words \<open>qzaa\<close>, \<open>qzab\<close>, ...), so that the
  vectoriser of line 117 has 500 terms and every word occurs at least twice. TextBlob
  gives the polarity 0 to a text none of whose words is in its lexicon.
\<close>

definition plain_lib :: text_lib where
  "plain_lib = demo_lib \<lparr> polarity := (\<lambda>s. 0) \<rparr>"

definition word_of :: "nat \<Rightarrow> string" where
  "word_of i = [CHR ''q'', CHR ''z'', char_of (97 + i div 26), char_of (97 + i mod 26)]"

definition wide_words :: "string list" where
  "wide_words = map word_of [0..<500]"

definition wide_text :: string where
  "wide_text = join_sp wide_words"

definition wide_frame :: frame where
  "wide_frame =
     [(''complaint_description'', replicate 20 (Str wide_text)),
      (''complaint_type'', replicate 6 (Str ''fraud'') @ replicate 14 (Str ''billing'')),
      (''transaction_frequency'', replicate 20 (Str ''daily'')),
      (''resolution_time_days'', replicate 20 (Num 4)),
      (''escalated'', replicate 6 (Num 1) @ replicate 14 (Num 0))]"

text \<open>The first record of that table as a scoring request, with the codes its two
  categories were given in training.\<close>

definition wide_request :: pyval where
  "wide_request = PyDict [(''complaint_description'', PyStr wide_text),
                          (''complaint_type'', PyNum 1), (''transaction_frequency'', PyNum 0),
                          (''resolution_time_days'', PyNum 4)]"

text \<open>
  Stand-ins for the learning libraries, with the refusals of the real ones. The embedding
  table holds the words that occur at least twice (\<open>min_count=2\<close>) and is refused when
  there is none. The vectoriser has one feature for each of at most 500 terms of the
  corpus and is refused when there is none. The balancing needs six rows of the minority
  class 1 (\<open>k_neighbors=5\<close>) and fewer of them than half the majority, and repeats the
  first of them. The scaler leaves the rows as they are. The split holds out the last
  fifth of the rows. Every classifier predicts 1 when the first feature is positive; the
  stacking classifier with \<open>cv=5\<close> is refused when there are fewer than five rows or
  when no class has five. The three metrics are those of scikit-learn on the labels 0
  and 1.
\<close>

definition demo_w2v_train :: "string list list \<Rightarrow> py_error + w2v" where
  "demo_w2v_train sentences =
     (let vocab = filter (\<lambda>w. 2 \<le> count_list (concat sentences) w) (remdups (concat sentences))
      in if vocab = [] then Inl RuntimeError
         else Inr (map (\<lambda>w. (w, replicate 100 1)) vocab))"

definition demo_tfidf_fit :: "string list \<Rightarrow> py_error + tfidf_vectorizer" where
  "demo_tfidf_fit docs =
     (let vocab = take 500 (sort (remdups (concat (map (py_split demo_lib) docs))))
      in if vocab = [] then Inl ValueError
         else Inr (\<lambda>text. map (\<lambda>t. if t \<in> set (py_split demo_lib text) then 1 else 0) vocab))"

definition demo_smote :: "real list list \<Rightarrow> cell list \<Rightarrow> py_error + real list list \<times> cell list" where
  "demo_smote X y =
     (let minority = map fst (filter (\<lambda>(x, c). c = Num 1) (zip X y));
          half = length (filter (\<lambda>c. c = Num 0) y) div 2
      in if length X \<noteq> length y \<or> length minority < 6 \<or> half \<le> length minority
         then Inl ValueError
         else Inr (X @ replicate (half - length minority) (hd minority),
                   y @ replicate (half - length minority) (Num 1)))"

definition demo_split_fn :: "real list list \<Rightarrow> cell list \<Rightarrow> py_error + split_data" where
  "demo_split_fn X y =
     (let k = length X div 5
      in if length X \<noteq> length y \<or> k = 0 then Inl ValueError
         else Inr \<lparr> X_train = take (length X - k) X, X_test = drop (length X - k) X,
                    y_train = take (length X - k) y, y_test = drop (length X - k) y \<rparr>)"

definition demo_predict_rows :: fitted_model where
  "demo_predict_rows rows =
     Inr (map (\<lambda>x. case x of [] \<Rightarrow> Num 0 | a # rest \<Rightarrow> if 0 < a then Num 1 else Num 0) rows)"

definition demo_lgbm_fit :: "lgbm_params \<Rightarrow> real list list \<Rightarrow> cell list \<Rightarrow> py_error + fitted_model" where
  "demo_lgbm_fit p X y =
     (if X = [] \<or> length X \<noteq> length y then Inl ValueError else Inr demo_predict_rows)"

definition demo_stack_fit :: "lgbm_params \<Rightarrow> real list list \<Rightarrow> cell list \<Rightarrow> py_error + fitted_model" where
  "demo_stack_fit p X y =
     (if length X \<noteq> length y \<or> length X < 5
         \<or> (length (filter (\<lambda>c. c = Num 0) y) < 5 \<and> length (filter (\<lambda>c. c = Num 1) y) < 5)
      then Inl ValueError else Inr demo_predict_rows)"

definition count_pairs :: "cell list \<Rightarrow> cell list \<Rightarrow> real \<Rightarrow> real \<Rightarrow> nat" where
  "count_pairs y_true y_pred t p =
     length (filter (\<lambda>(a, b). a = Num t \<and> b = Num p) (zip y_true y_pred))"

definition demo_f1 :: "cell list \<Rightarrow> cell list \<Rightarrow> py_error + real" where
  "demo_f1 y_true y_pred =
     (let tp = count_pairs y_true y_pred 1 1;
          fp = count_pairs y_true y_pred 0 1;
          fn = count_pairs y_true y_pred 1 0
      in if length y_true \<noteq> length y_pred then Inl ValueError
         else Inr (if 2 * tp + fp + fn = 0 then 0 else real (2 * tp) / real (2 * tp + fp + fn)))"

definition demo_auc :: "cell list \<Rightarrow> cell list \<Rightarrow> py_error + real" where
  "demo_auc y_true y_pred =
     (let pos = length (filter (\<lambda>a. a = Num 1) y_true);
          neg = length (filter (\<lambda>a. a = Num 0) y_true)
      in if length y_true \<noteq> length y_pred \<or> pos = 0 \<or> neg = 0 then Inl ValueError
         else Inr ((1 + real (count_pairs y_true y_pred 1 1) / real pos
                      - real (count_pairs y_true y_pred 0 1) / real neg) / 2))"

definition demo_cm :: "cell list \<Rightarrow> cell list \<Rightarrow> py_error + nat list list" where
  "demo_cm y_true y_pred =
     (if length y_true \<noteq> length y_pred then Inl ValueError
      else Inr [[count_pairs y_true y_pred 0 0, count_pairs y_true y_pred 0 1],
                [count_pairs y_true y_pred 1 0, count_pairs y_true y_pred 1 1]])"

definition demo_params :: lgbm_params where
  "demo_params = \<lparr> num_leaves = 31, max_depth = 5, learning_rate = 1 / 10, n_estimators = 100,
                    reg_lambda = 1, reg_alpha = 1 \<rparr>"

definition demo_ml :: ml_lib where
  "demo_ml =
     \<lparr> w2v_train = demo_w2v_train,
       tfidf_fit = demo_tfidf_fit,
       smote_resample = demo_smote,
       scaler_fit = (\<lambda>X. case X of [] \<Rightarrow> Inl ValueError
                          | x # rest \<Rightarrow> Inr \<lparr> sc_mean = replicate (length x) 0,
                                               sc_scale = replicate (length x) 1 \<rparr>),
       train_test_split = demo_split_fn,
       suggest = (\<lambda>history. demo_params \<lparr> num_leaves := 20 + int (length history) \<rparr>),
       lgbm_fit = demo_lgbm_fit,
       stack_fit = demo_stack_fit,
       f1_score = demo_f1,
       roc_auc_score = demo_auc,
       confusion_matrix = demo_cm \<rparr>"



definition demo_learner :: "real \<Rightarrow> base_learner" where
  "demo_learner c data x = c + real (length data)"

definition demo_meta :: meta_learner where
  "demo_meta rows row = (if 0 < sum_list row then 1 else 0)"

definition demo_samples :: "sample list" where
  "demo_samples = [([1, 0], 1), ([- 1, 2], 0), ([2, 2], 1)]"

section \<open>Properties of the embedding averaging\<close>

lemma length_foldl_vec_add:
  "list_all (\<lambda>u. length u = length v) rest \<Longrightarrow> length (foldl vec_add v rest) = length v"
  by (induction rest arbitrary: v) (simp_all add: vec_add_def)

lemma nth_foldl_vec_add:
  "list_all (\<lambda>u. length u = length v) rest \<Longrightarrow> i < length v \<Longrightarrow>
     foldl vec_add v rest ! i = v ! i + sum_list (map (\<lambda>u. u ! i) rest)"
proof (induction rest arbitrary: v)
  case Nil
  then show ?case by simp
next
  case (Cons u rest)
  have len: "length (vec_add v u) = length v"
    using Cons.prems(1) by (simp add: vec_add_def)
  have all: "list_all (\<lambda>w. length w = length (vec_add v u)) rest"
    using Cons.prems(1) len by simp
  have "foldl vec_add (vec_add v u) rest ! i
          = vec_add v u ! i + sum_list (map (\<lambda>w. w ! i) rest)"
    using Cons.IH [OF all] Cons.prems(2) len by simp
  moreover have "vec_add v u ! i = v ! i + u ! i"
    using Cons.prems by (simp add: vec_add_def)
  ultimately show ?case by simp
qed

lemma wv_vectors_set:
  "v \<in> set (wv_vectors wv words) \<Longrightarrow> \<exists>w. (w, v) \<in> set wv"
proof -
  assume "v \<in> set (wv_vectors wv words)"
  then obtain w where "map_of wv w = Some v"
    by (auto simp: wv_vectors_def split: option.splits)
  then show ?thesis by (blast dest: map_of_SomeD)
qed

lemma wv_vectors_filter:
  "wv_vectors wv words =
     map (\<lambda>w. the (map_of wv w)) (filter (\<lambda>w. map_of wv w \<noteq> None) words)"
  by (induction words) (auto simp: wv_vectors_def split: option.splits)

lemma present_vectors_eq: "present_vectors wv words = wv_vectors wv words"
  by (simp add: present_vectors_def wv_vectors_filter)

text \<open>
  C7. For every text and every embedding table whose vectors have width 100 (the table is
  trained with \<open>vector_size=100\<close>), \<open>get_w2v_vector\<close> returns a vector and does not
  raise; the vector has width 100; it is the zero vector when no token of the text is in
  the table (the empty text included); otherwise each coordinate is the arithmetic mean of
  that coordinate over the vectors of the tokens that are in the table, tokens outside the
  table being skipped.
\<close>

theorem get_w2v_vector_mean:
  assumes wf: "list_all (\<lambda>(w, v). length v = 100) wv"
  shows "\<exists>r. get_w2v_vector L wv text = Inr r \<and> length r = 100 \<and>
           (if present_vectors wv (py_split L text) = [] then r = replicate 100 0
            else \<forall>i<100. r ! i = mean_at (present_vectors wv (py_split L text)) i)"
proof (cases "wv_vectors wv (py_split L text)")
  case Nil
  then show ?thesis by (simp add: get_w2v_vector_def present_vectors_eq)
next
  case (Cons v rest)
  have pres: "present_vectors wv (py_split L text) = v # rest"
    using Cons by (simp add: present_vectors_eq)
  have len: "length u = 100" if "u \<in> set (v # rest)" for u
  proof -
    from that have "u \<in> set (wv_vectors wv (py_split L text))" using Cons by simp
    then obtain w where "(w, u) \<in> set wv" using wv_vectors_set by blast
    then show ?thesis using wf by (auto simp: list_all_iff)
  qed
  have lv: "length v = 100" using len by simp
  have all: "list_all (\<lambda>u. length u = length v) rest"
    using len lv by (simp add: list_all_iff)
  let ?r = "map (\<lambda>s. s / real (Suc (length rest))) (foldl vec_add v rest)"
  have res: "get_w2v_vector L wv text = Inr ?r"
    using Cons all by (simp add: get_w2v_vector_def np_mean_axis0_def)
  have lr: "length ?r = 100" using length_foldl_vec_add [OF all] lv by simp
  have nth: "?r ! i = mean_at (v # rest) i" if i: "i < 100" for i
  proof -
    from i have "i < length v" using lv by simp
    from nth_foldl_vec_add [OF all this] i lv length_foldl_vec_add [OF all]
    show ?thesis by (simp add: mean_at_def)
  qed
  show ?thesis using res lr nth pres by simp
qed

lemma demo_py_split: "py_split demo_lib ''refund late xyz'' = [''refund'', ''late'', ''xyz'']"
  by (simp add: py_split_def demo_lib_def)

lemma demo_present:
  "present_vectors demo_wv [''refund'', ''late'', ''xyz''] = [replicate 100 2, replicate 100 4]"
  by (simp add: present_vectors_def demo_wv_def)

theorem get_w2v_vector_mean_witness:
  "list_all (\<lambda>(w, v). length v = 100) demo_wv \<and>
   (\<exists>r. get_w2v_vector demo_lib demo_wv ''refund late xyz'' = Inr r \<and> length r = 100 \<and>
        r ! 7 = mean_at [replicate 100 2, replicate 100 4] 7 \<and> r ! 7 = 3)"
proof -
  have wf: "list_all (\<lambda>(w, v). length v = 100) demo_wv"
    by (simp add: demo_wv_def)
  from get_w2v_vector_mean [OF wf, of demo_lib "''refund late xyz''"]
  obtain r where r: "get_w2v_vector demo_lib demo_wv ''refund late xyz'' = Inr r"
      "length r = 100" "\<forall>i<100. r ! i = mean_at [replicate 100 2, replicate 100 4] i"
    by (auto simp: demo_py_split demo_present)
  from r(3) have "r ! 7 = mean_at [replicate 100 2, replicate 100 4] 7" by simp
  moreover have "mean_at [replicate 100 2, replicate 100 4] 7 = 3"
    by (simp add: mean_at_def)
  ultimately show ?thesis using wf r(1,2) by simp
qed

section \<open>Properties of the scoring service\<close>

lemma load_app_None:
  "load_app files = Inr A \<Longrightarrow> app_scaler A = None \<and> app_w2v_model A = None \<and> app_tfidf A = None"
  by (auto simp: load_app_def split: option.splits)

lemma get_w2v_vector_width:
  assumes wf: "list_all (\<lambda>(w, v). length v = 100) wv"
  shows "\<exists>r. get_w2v_vector L wv text = Inr r \<and> length r = 100"
proof (cases "wv_vectors wv (py_split L text)")
  case Nil
  then show ?thesis by (simp add: get_w2v_vector_def)
next
  case (Cons v rest)
  have len: "length u = 100" if "u \<in> set (v # rest)" for u
  proof -
    from that have "u \<in> set (wv_vectors wv (py_split L text))" using Cons by simp
    then obtain w where "(w, u) \<in> set wv" using wv_vectors_set by blast
    then show ?thesis using wf by (auto simp: list_all_iff)
  qed
  then have all: "list_all (\<lambda>u. length u = length v) rest"
    by (simp add: list_all_iff)
  have "length (foldl vec_add v rest) = 100"
    using length_foldl_vec_add [OF all] len by simp
  then show ?thesis
    using Cons all by (simp add: get_w2v_vector_def np_mean_axis0_def)
qed

lemma clean_text_app_str:
  "clean_text_app L descr = Inr cleaned \<Longrightarrow> \<exists>s. descr = PyStr s"
  by (cases descr) (simp_all add: clean_text_app_def clean_steps_def)

lemma np_array_plain:
  "\<not> is_array ct \<Longrightarrow> \<not> is_array tf \<Longrightarrow> np_array [PyNum s, ct, tf] = Inr [PyNum s, ct, tf]"
  by (simp add: np_array_def is_array_def)

lemma np_array_refused:
  "is_array ct \<or> is_array tf \<Longrightarrow> np_array [PyNum s, ct, tf] = Inl ValueError"
  by (auto simp: np_array_def)

lemma feature_array_built:
  assumes t: "dict_get data ''complaint_description'' (PyStr []) = Inr (PyStr s)"
    and c: "clean_text_app L (PyStr s) = Inr cleaned"
    and w: "(case app_w2v_model A of Some wv \<Rightarrow> get_w2v_vector L wv cleaned
             | None \<Rightarrow> Inr (replicate 100 0)) = Inr w"
    and ct: "dict_get data ''complaint_type'' (PyNum 0) = Inr ct" "\<not> is_array ct"
    and tf: "dict_get data ''transaction_frequency'' (PyNum 0) = Inr tf" "\<not> is_array tf"
  shows "feature_array L A data =
           Inr ([PyNum (polarity L s), ct, tf] @ map PyNum w
                @ map PyNum (case app_tfidf A of Some f \<Rightarrow> f cleaned | None \<Rightarrow> replicate 500 0))"
  using t c w ct(1) tf(1)
  by (simp add: feature_array_def bind_err_def sentiment_of_def np_array_plain [OF ct(2) tf(2)])

lemma feature_array_reads:
  assumes "dict_get data' ''complaint_description'' (PyStr []) = dict_get data ''complaint_description'' (PyStr [])"
    and "dict_get data' ''complaint_type'' (PyNum 0) = dict_get data ''complaint_type'' (PyNum 0)"
    and "dict_get data' ''transaction_frequency'' (PyNum 0) = dict_get data ''transaction_frequency'' (PyNum 0)"
  shows "feature_array L A data' = feature_array L A data"
  unfolding feature_array_def assms ..

lemma feature_array_entries:
  assumes "feature_array L A (PyDict kvs) = Inr arr"
  shows "\<exists>s rest. arr = s # (case map_of kvs ''complaint_type'' of None \<Rightarrow> PyNum 0 | Some x \<Rightarrow> x)
                        # (case map_of kvs ''transaction_frequency'' of None \<Rightarrow> PyNum 0 | Some x \<Rightarrow> x)
                        # rest"
  using assms
  by (auto simp: feature_array_def bind_err_def dict_get_def np_array_def
           split: sum.splits if_splits)

lemma sequence_err_map_Inr:
  "sequence_err (map f xs) = Inr ys \<Longrightarrow> x \<in> set xs \<Longrightarrow> \<exists>y. f x = Inr y"
proof (induction xs arbitrary: ys)
  case Nil
  then show ?case by simp
next
  case (Cons a xs)
  then show ?case by (auto split: sum.splits)
qed

lemma sequence_err_map_ok:
  "(\<And>x. x \<in> set xs \<Longrightarrow> f x = Inr (g x)) \<Longrightarrow> sequence_err (map f xs) = Inr (map g xs)"
  by (induction xs) simp_all

lemma as_floats_nums: "sequence_err (map as_float (map PyNum xs)) = Inr xs"
  by (induction xs) (simp_all add: as_float_def)

lemma feature_vector_text_refused:
  assumes "map_of kvs ''complaint_type'' = Some (PyStr c)
           \<or> map_of kvs ''transaction_frequency'' = Some (PyStr c)"
  shows "\<exists>e. feature_vector L A (PyDict kvs) = Inl e"
proof (cases "feature_array L A (PyDict kvs)")
  case (Inl e)
  then show ?thesis by (simp add: feature_vector_def bind_err_def)
next
  case (Inr arr)
  from feature_array_entries [OF Inr] assms have "PyStr c \<in> set arr" by auto
  moreover have "as_float (PyStr c) = Inl ValueError" by (simp add: as_float_def)
  ultimately have "\<not> (\<exists>ys. sequence_err (map as_float arr) = Inr ys)"
    using sequence_err_map_Inr [of as_float arr _ "PyStr c"] by auto
  then obtain e where "sequence_err (map as_float arr) = Inl e"
    by (cases "sequence_err (map as_float arr)") auto
  then show ?thesis using Inr by (simp add: feature_vector_def bind_err_def)
qed

lemma predict_answers:
  "(\<exists>p. predict L A data = Escalated p) \<or> (\<exists>e. predict L A data = ErrorResponse e)"
  by (simp add: predict_def split: sum.splits)

lemma predict_error:
  "feature_vector L A data = Inl e \<Longrightarrow> predict L A data = ErrorResponse e"
  by (simp add: predict_def served_vector_def bind_err_def)

lemma feature_vector_nums:
  assumes "feature_array L A data = Inr ([PyNum s, PyNum ct, PyNum tf] @ map PyNum w @ map PyNum t)"
  shows "feature_vector L A data = Inr ([s, ct, tf] @ w @ t)"
proof -
  have "sequence_err (map as_float (map PyNum ([s, ct, tf] @ w @ t))) = Inr ([s, ct, tf] @ w @ t)"
    by (rule as_floats_nums)
  then show ?thesis using assms by (simp add: feature_vector_def bind_err_def)
qed

lemma demo_clean: "clean_text_app demo_lib (PyStr ''My REFUND is late'') = Inr ''refund late''"
  by code_simp

lemma load_full: "load_app full_bundle = Inr demo_app"
  by (simp add: load_app_def full_bundle_def demo_app_def)

lemma load_model_only: "load_app model_only_bundle = Inr demo_app"
  by (simp add: load_app_def model_only_bundle_def demo_app_def)

lemma replicate_100_500: "replicate 100 (0::real) @ replicate 500 0 = replicate 600 0"
  by (simp add: replicate_add [symmetric])

lemma demo_feature_array:
  "feature_array demo_lib demo_app demo_request
     = Inr ([PyNum (1 / 2), PyNum 3, PyNum 1] @ map PyNum (replicate 100 0) @ map PyNum (replicate 500 0))"
proof -
  have t: "dict_get demo_request ''complaint_description'' (PyStr []) = Inr (PyStr ''My REFUND is late'')"
    and ct: "dict_get demo_request ''complaint_type'' (PyNum 0) = Inr (PyNum 3)"
    and tf: "dict_get demo_request ''transaction_frequency'' (PyNum 0) = Inr (PyNum 1)"
    by (simp_all add: dict_get_def demo_request_def)
  have w: "(case app_w2v_model demo_app of Some wv \<Rightarrow> get_w2v_vector demo_lib wv ''refund late''
            | None \<Rightarrow> Inr (replicate 100 0)) = Inr (replicate 100 0)"
    by (simp add: demo_app_def)
  have p: "polarity demo_lib ''My REFUND is late'' = 1 / 2" by (simp add: demo_lib_def)
  have f: "app_tfidf demo_app = None" by (simp add: demo_app_def)
  from feature_array_built [OF t demo_clean w ct _ tf]
  show ?thesis by (simp add: is_array_def p f)
qed

lemma demo_feature_vector:
  "feature_vector demo_lib demo_app demo_request = Inr ([1 / 2, 3, 1] @ replicate 600 0)"
  using feature_vector_nums [OF demo_feature_array] by (simp add: replicate_100_500)

lemma demo_served_vector:
  "served_vector demo_lib demo_app demo_request = Inr ([1 / 2, 3, 1] @ replicate 600 0)"
  by (simp add: served_vector_def demo_feature_vector bind_err_def) (simp add: demo_app_def)

lemma demo_predict: "predict demo_lib demo_app demo_request = Escalated 1"
  by (simp add: predict_def demo_served_vector bind_err_def) (simp add: demo_app_def demo_model_def)


text \<open>
  C6. The notebook's \<open>clean_text\<close> never raises: on a value that is not a \<open>str\<close> its
  handler returns the empty text. The service's \<open>clean_text\<close> has no handler: on the same
  value it raises \<open>AttributeError\<close>, and a request whose \<open>complaint_description\<close> is the
  number 5 is answered with that error instead of being scored on an empty token sequence.
\<close>

theorem clean_text_app_raises:
  "clean_text_app L (PyNum 5) = Inl AttributeError \<and> clean_text L (PyNum 5) = [] \<and>
   predict L A (PyDict [(''complaint_description'', PyNum 5)]) = ErrorResponse AttributeError"
  by (simp add: clean_text_app_def clean_text_def clean_steps_def predict_def served_vector_def
      feature_vector_def feature_array_def dict_get_def bind_err_def)


text \<open>
  C9 (amended). For every request that is an object, whose \<open>complaint_description\<close> (the
  empty text when absent) is cleaned without an exception and whose \<open>complaint_type\<close> and
  \<open>transaction_frequency\<close> (0 when absent) are not JSON arrays, the service builds an
  array of exactly 603 entries: the sentiment of the text, the two categorical fields as
  they were sent, 100 embedding entries and 500 lexical entries. This holds whatever
  embedding table of width 100 and whatever vectoriser of 500 features the service holds,
  and when it holds none the entries are zeros. Every request that agrees
  with this one on the three fields gets the same array: no other field enters it.
\<close>

theorem feature_array_layout:
  assumes "dict_get data ''complaint_description'' (PyStr []) = Inr descr"
    and "clean_text_app L descr = Inr cleaned"
    and "dict_get data ''complaint_type'' (PyNum 0) = Inr ct" and "\<not> is_array ct"
    and "dict_get data ''transaction_frequency'' (PyNum 0) = Inr tf" and "\<not> is_array tf"
    and "\<forall>wv. app_w2v_model A = Some wv \<longrightarrow> list_all (\<lambda>(w, v). length v = 100) wv"
    and "\<forall>f. app_tfidf A = Some f \<longrightarrow> length (f cleaned) = 500"
  shows "\<exists>s w t. descr = PyStr s \<and> length w = 100 \<and> length t = 500 \<and>
           (case app_w2v_model A of Some wv \<Rightarrow> get_w2v_vector L wv cleaned = Inr w
            | None \<Rightarrow> w = replicate 100 0) \<and>
           (case app_tfidf A of Some f \<Rightarrow> t = f cleaned | None \<Rightarrow> t = replicate 500 0) \<and>
           feature_array L A data = Inr ([PyNum (polarity L s), ct, tf] @ map PyNum w @ map PyNum t) \<and>
           length ([PyNum (polarity L s), ct, tf] @ map PyNum w @ map PyNum t) = 603 \<and>
           (\<forall>data'. dict_get data' ''complaint_description'' (PyStr []) = Inr descr \<and>
                    dict_get data' ''complaint_type'' (PyNum 0) = Inr ct \<and>
                    dict_get data' ''transaction_frequency'' (PyNum 0) = Inr tf \<longrightarrow>
                    feature_array L A data' = feature_array L A data)"
proof -
  from clean_text_app_str [OF assms(2)] obtain s where s: "descr = PyStr s" ..
  obtain w where w: "(case app_w2v_model A of Some wv \<Rightarrow> get_w2v_vector L wv cleaned
                      | None \<Rightarrow> Inr (replicate 100 0)) = Inr w" and lw: "length w = 100"
  proof (cases "app_w2v_model A")
    case None
    then show ?thesis using that [of "replicate 100 0"] by simp
  next
    case (Some wv)
    with assms(7) have "list_all (\<lambda>(w, v). length v = 100) wv" by simp
    from get_w2v_vector_width [OF this, of L cleaned] Some that show ?thesis by auto
  qed
  define t where "t = (case app_tfidf A of Some f \<Rightarrow> f cleaned | None \<Rightarrow> replicate 500 0)"
  have lt: "length t = 500"
    using assms(8) by (simp add: t_def split: option.splits)
  have arr: "feature_array L A data = Inr ([PyNum (polarity L s), ct, tf] @ map PyNum w @ map PyNum t)"
    unfolding t_def
    using feature_array_built [OF assms(1) [unfolded s] assms(2) [unfolded s] w assms(3,4,5,6)] .
  have same: "feature_array L A data' = feature_array L A data"
    if "dict_get data' ''complaint_description'' (PyStr []) = Inr descr"
      "dict_get data' ''complaint_type'' (PyNum 0) = Inr ct"
      "dict_get data' ''transaction_frequency'' (PyNum 0) = Inr tf" for data'
    by (rule feature_array_reads) (simp_all add: that assms(1,3,5))
  have cw: "(case app_w2v_model A of Some wv \<Rightarrow> get_w2v_vector L wv cleaned = Inr w
             | None \<Rightarrow> w = replicate 100 0)"
    using w by (auto split: option.splits)
  have ct': "(case app_tfidf A of Some f \<Rightarrow> t = f cleaned | None \<Rightarrow> t = replicate 500 0)"
    by (simp add: t_def split: option.splits)
  show ?thesis
    using s lw lt cw ct' arr same by (intro exI [of _ s] exI [of _ w] exI [of _ t]) simp
qed

text \<open>The theorem at a request that also carries \<open>resolution_time_days\<close>, in a service that
  holds an embedding table and a vectoriser; the request without that field gets the same
  array.\<close>

theorem feature_array_layout_witness:
  "\<exists>w. get_w2v_vector demo_lib demo_wv ''refund late'' = Inr w \<and> length w = 100 \<and>
       feature_array demo_lib loaded_app demo_request
         = Inr ([PyNum (1 / 2), PyNum 3, PyNum 1] @ map PyNum w @ map PyNum (replicate 500 (1 / 4))) \<and>
       length ([PyNum (1 / 2), PyNum 3, PyNum 1] @ map PyNum w @ map PyNum (replicate 500 (1 / 4))) = 603 \<and>
       feature_array demo_lib loaded_app
           (PyDict [(''transaction_frequency'', PyNum 1), (''complaint_type'', PyNum 3),
                    (''complaint_description'', PyStr ''My REFUND is late'')])
         = feature_array demo_lib loaded_app demo_request"
proof -
  have t: "dict_get demo_request ''complaint_description'' (PyStr []) = Inr (PyStr ''My REFUND is late'')"
    and ct: "dict_get demo_request ''complaint_type'' (PyNum 0) = Inr (PyNum 3)"
    and tf: "dict_get demo_request ''transaction_frequency'' (PyNum 0) = Inr (PyNum 1)"
    by (simp_all add: dict_get_def demo_request_def)
  have n: "\<not> is_array (PyNum 3)" "\<not> is_array (PyNum 1)" by (simp_all add: is_array_def)
  have wv: "\<forall>wv. app_w2v_model loaded_app = Some wv \<longrightarrow> list_all (\<lambda>(w, v). length v = 100) wv"
    by (simp add: loaded_app_def demo_wv_def)
  have f: "\<forall>f. app_tfidf loaded_app = Some f \<longrightarrow> length (f ''refund late'') = 500"
    by (auto simp: loaded_app_def)
  have p: "polarity demo_lib ''My REFUND is late'' = 1 / 2" by (simp add: demo_lib_def)
  from feature_array_layout [OF t demo_clean ct n(1) tf n(2) wv f]
  obtain s w t' where
    1: "PyStr ''My REFUND is late'' = PyStr s" "length w = 100"
      "(case app_w2v_model loaded_app of Some wv \<Rightarrow> get_w2v_vector demo_lib wv ''refund late'' = Inr w
        | None \<Rightarrow> w = replicate 100 0)"
      "(case app_tfidf loaded_app of Some f \<Rightarrow> t' = f ''refund late'' | None \<Rightarrow> t' = replicate 500 0)"
      "feature_array demo_lib loaded_app demo_request
         = Inr ([PyNum (polarity demo_lib s), PyNum 3, PyNum 1] @ map PyNum w @ map PyNum t')"
    and 2: "\<forall>data'. dict_get data' ''complaint_description'' (PyStr []) = Inr (PyStr ''My REFUND is late'') \<and>
                    dict_get data' ''complaint_type'' (PyNum 0) = Inr (PyNum 3) \<and>
                    dict_get data' ''transaction_frequency'' (PyNum 0) = Inr (PyNum 1) \<longrightarrow>
                    feature_array demo_lib loaded_app data' = feature_array demo_lib loaded_app demo_request"
    by blast
  have s: "s = ''My REFUND is late''" using 1(1) by simp
  have t': "t' = replicate 500 (1 / 4)" using 1(4) by (simp add: loaded_app_def)
  have w: "get_w2v_vector demo_lib demo_wv ''refund late'' = Inr w"
    using 1(3) by (simp add: loaded_app_def)
  have same: "feature_array demo_lib loaded_app
           (PyDict [(''transaction_frequency'', PyNum 1), (''complaint_type'', PyNum 3),
                    (''complaint_description'', PyStr ''My REFUND is late'')])
         = feature_array demo_lib loaded_app demo_request"
    by (rule 2 [rule_format]) (simp add: dict_get_def)
  show ?thesis
    using w 1(2) 1(5) same by (intro exI [of _ w]) (simp add: s t' p)
qed

text \<open>
  C9 as stated fails, in three ways. A request whose body is a JSON array has no \<open>get\<close>;
  a request whose \<open>complaint_description\<close> is a number cannot be lowercased; a request
  whose \<open>complaint_type\<close> is a JSON array makes the three numeric features ragged. In each
  case the service builds no array and answers with the error.
\<close>

theorem feature_array_counterexample:
  "feature_array demo_lib demo_app (PyList []) = Inl AttributeError \<and>
   feature_array demo_lib demo_app (PyDict [(''complaint_description'', PyNum 5)]) = Inl AttributeError \<and>
   feature_array demo_lib demo_app array_request = Inl ValueError \<and>
   predict demo_lib demo_app array_request = ErrorResponse ValueError"
proof -
  have 1: "feature_array demo_lib demo_app (PyList []) = Inl AttributeError"
    by (simp add: feature_array_def dict_get_def bind_err_def)
  have 2: "feature_array demo_lib demo_app (PyDict [(''complaint_description'', PyNum 5)]) = Inl AttributeError"
    by (simp add: feature_array_def dict_get_def bind_err_def clean_text_app_def clean_steps_def)
  have 3: "feature_array demo_lib demo_app array_request = Inl ValueError"
    unfolding feature_array_def array_request_def
    by (simp add: dict_get_def bind_err_def demo_clean sentiment_of_def np_array_def is_array_def
        demo_app_def)
  have 4: "predict demo_lib demo_app array_request = ErrorResponse ValueError"
    by (rule predict_error) (simp add: feature_vector_def 3 bind_err_def)
  show ?thesis using 1 2 3 4 by simp
qed

lemma served_vector_raw:
  "load_app files = Inr A \<Longrightarrow> served_vector L A data = feature_vector L A data"
  using load_app_None [of files A]
  by (simp add: served_vector_def bind_err_def split: sum.splits)

lemma demo_scaled:
  "scaler_transform demo_scaler ([1 / 2, 3, 1] @ replicate 600 0)
     = Inr ([- 1 / 4, 1, 0] @ replicate 600 (- 1 / 2))"
proof -
  have z: "zip (replicate 600 (0::real)) (zip (replicate 600 (1::real)) (replicate 600 (2::real)))
             = replicate 600 (0, 1, 2)"
    by simp
  have m: "sc_mean demo_scaler = [1, 1, 1] @ replicate 600 1"
    "sc_scale demo_scaler = [2, 2, 2] @ replicate 600 2"
    by (simp_all add: demo_scaler_def replicate_add [symmetric] flip: replicate_Suc)
  show ?thesis
    unfolding scaler_transform_def m
    by (simp add: z)
qed

text \<open>
  C2. The service never standardises: started from files that hold a fitted scaler, it
  still has no scaler, and for every request the vector handed to the classifier is the
  vector as assembled. For the request \<open>demo_request\<close> that is the unscaled
  \<open>[1/2, 3, 1, 0, ...]\<close>, while the persisted statistics would give
  \<open>[-1/4, 1, 0, -1/2, ...]\<close>.
\<close>

theorem served_vector_not_scaled:
  "scaler_pkl full_bundle = Some demo_scaler \<and> load_app full_bundle = Inr demo_app \<and>
   (\<forall>data. served_vector demo_lib demo_app data = feature_vector demo_lib demo_app data) \<and>
   served_vector demo_lib demo_app demo_request = Inr ([1 / 2, 3, 1] @ replicate 600 0) \<and>
   scaler_transform demo_scaler ([1 / 2, 3, 1] @ replicate 600 0)
     = Inr ([- 1 / 4, 1, 0] @ replicate 600 (- 1 / 2))"
  using load_full demo_served_vector demo_scaled served_vector_raw [OF load_full]
  by (simp add: full_bundle_def)

lemma drop_3_more: "drop (3 + n) (a # b # c # xs) = drop n xs"
  by (simp add: numeral_3_eq_3)

lemma feature_array_zero_embedding:
  assumes "app_w2v_model A = None" "feature_array L A data = Inr arr"
  shows "take 100 (drop 3 arr) = replicate 100 (PyNum 0)"
  using assms
  by (auto simp: feature_array_def bind_err_def np_array_def split: sum.splits if_splits)

lemma feature_array_zero_lexical:
  assumes "app_tfidf A = None" "feature_array L A data = Inr arr"
  shows "drop (length arr - 500) arr = replicate 500 (PyNum 0)"
  using assms
  by (auto simp: feature_array_def bind_err_def np_array_def drop_3_more split: sum.splits if_splits)

lemma served_vector_unscaled:
  "app_scaler A = None \<Longrightarrow> served_vector L A data = feature_vector L A data"
  by (simp add: served_vector_def bind_err_def split: sum.splits)

text \<open>
  C3 (amended). Start-up fails, with \<open>FileNotFoundError\<close> and before any request is
  served, when the file of the trained ensemble is missing. No other missing member makes
  it fail: when the ensemble is present the service starts, and it holds no scaler, no
  embedding table and no vectoriser when the file of that member is missing. A service
  without embedding table puts 100 zeros in the place of the embedding entries, one
  without vectoriser puts 500 zeros in the place of the lexical entries, and one without
  scaler hands the classifier the vector as assembled.
\<close>

theorem missing_member_substituted:
  "(escalation_model_pkl files = None \<longrightarrow> load_app files = Inl FileNotFoundError) \<and>
   (\<forall>m. escalation_model_pkl files = Some m \<longrightarrow>
      (\<exists>A'. load_app files = Inr A' \<and> app_model A' = m \<and>
            (scaler_pkl files = None \<longrightarrow> app_scaler A' = None) \<and>
            (w2v_model_pkl files = None \<longrightarrow> app_w2v_model A' = None) \<and>
            (tfidf_vectorizer_pkl files = None \<longrightarrow> app_tfidf A' = None))) \<and>
   (app_w2v_model A = None \<and> feature_array L A data = Inr arr \<longrightarrow>
      take 100 (drop 3 arr) = replicate 100 (PyNum 0)) \<and>
   (app_tfidf A = None \<and> feature_array L A data = Inr arr \<longrightarrow>
      drop (length arr - 500) arr = replicate 500 (PyNum 0)) \<and>
   (app_scaler A = None \<longrightarrow> served_vector L A data = feature_vector L A data)"
  using feature_array_zero_embedding [of A L data arr] feature_array_zero_lexical [of A L data arr]
    served_vector_unscaled [of A L data]
  by (simp add: load_app_def)

text \<open>The theorem at a set of files without the ensemble, at one with the ensemble only,
  and at a request served from the latter.\<close>

theorem missing_member_substituted_witness:
  "load_app no_model_bundle = Inl FileNotFoundError \<and>
   load_app model_only_bundle = Inr demo_app \<and>
   (\<exists>arr. feature_array demo_lib demo_app demo_request = Inr arr \<and>
      take 100 (drop 3 arr) = replicate 100 (PyNum 0) \<and>
      drop (length arr - 500) arr = replicate 500 (PyNum 0)) \<and>
   served_vector demo_lib demo_app demo_request = feature_vector demo_lib demo_app demo_request"
proof -
  define arr where "arr = [PyNum (1 / 2), PyNum 3, PyNum 1] @ map PyNum (replicate 100 0)
                            @ map PyNum (replicate 500 0)"
  have a: "feature_array demo_lib demo_app demo_request = Inr arr"
    by (simp only: demo_feature_array arr_def)
  have n: "app_w2v_model demo_app = None" "app_tfidf demo_app = None" "app_scaler demo_app = None"
    by (simp_all add: demo_app_def)
  have 1: "load_app no_model_bundle = Inl FileNotFoundError"
    using missing_member_substituted [of no_model_bundle]
    by (simp add: no_model_bundle_def full_bundle_def)
  from missing_member_substituted [of model_only_bundle demo_app demo_lib demo_request arr] a n
  have 2: "take 100 (drop 3 arr) = replicate 100 (PyNum 0)"
    "drop (length arr - 500) arr = replicate 500 (PyNum 0)"
    "served_vector demo_lib demo_app demo_request = feature_vector demo_lib demo_app demo_request"
    by blast+
  show ?thesis using 1 2 a load_model_only by blast
qed

text \<open>
  C3 as stated fails: from files without the lexical vocabulary (and without scaler,
  embedding table and label encoders) the service starts and answers a request with a
  prediction.
\<close>

theorem partial_bundle_serves:
  "tfidf_vectorizer_pkl model_only_bundle = None \<and> scaler_pkl model_only_bundle = None \<and>
   w2v_model_pkl model_only_bundle = None \<and> label_encoders_pkl model_only_bundle = None \<and>
   load_app model_only_bundle = Inr demo_app \<and>
   predict demo_lib demo_app demo_request = Escalated 1"
  using load_model_only demo_predict by (simp add: model_only_bundle_def)

section \<open>Properties of the preparation of the table\<close>

lemma map_of_replace_other:
  "c \<noteq> c' \<Longrightarrow> map_of (map (\<lambda>(n, old). if n = c then (n, x) else (n, old)) df) c' = map_of df c'"
  by (induction df) auto

lemma map_of_replace_same:
  "c \<in> set (map fst df) \<Longrightarrow> map_of (map (\<lambda>(n, old). if n = c then (n, x) else (n, old)) df) c = Some x"
  by (induction df) auto

lemma get_col_set_col_other: "c \<noteq> c' \<Longrightarrow> get_col (set_col df c x) c' = get_col df c'"
  by (auto simp: get_col_def set_col_def map_of_replace_other map_add_def split: option.splits)

lemma get_col_set_col_same: "get_col (set_col df c x) c = Inr x"
proof (cases "c \<in> set (map fst df)")
  case True
  then show ?thesis by (simp add: get_col_def set_col_def map_of_replace_same)
next
  case False
  then have "map_of df c = None" by (simp add: map_of_eq_None_iff)
  then show ?thesis using False by (simp add: get_col_def set_col_def map_add_def)
qed

lemma get_col_names: "get_col df c = Inr cells \<Longrightarrow> c \<in> set (map fst df)"
  by (auto simp: get_col_def split: option.splits dest: map_of_SomeD intro: rev_image_eqI)

lemma names_set_col_present:
  "c \<in> set (map fst df) \<Longrightarrow> map fst (set_col df c x) = map fst df"
  by (auto simp: set_col_def)

lemma names_set_col:
  "map fst (set_col df c x) = map fst df @ (if c \<in> set (map fst df) then [] else [c])"
  by (auto simp: set_col_def)

lemma map_of_fillna:
  "map_of (fillna_median df) n =
     map_option (\<lambda>cells. case col_median cells of None \<Rightarrow> cells | Some m \<Rightarrow> fill_cells m cells)
       (map_of df n)"
  unfolding fillna_median_def by (induction df) (auto split: option.splits)

lemma get_col_fillna:
  "get_col df n = Inr cells \<Longrightarrow>
     get_col (fillna_median df) n
       = Inr (case col_median cells of None \<Rightarrow> cells | Some m \<Rightarrow> fill_cells m cells)"
  by (auto simp: get_col_def map_of_fillna split: option.splits)

lemma names_fillna: "map fst (fillna_median df) = map fst df"
  by (simp add: fillna_median_def case_prod_unfold comp_def)

lemma fill_cells_eq: "fill_cells m cells = map (\<lambda>c. if c = NaN then Num m else c) cells"
  by (auto simp: fill_cells_def split: cell.splits)

lemma fill_cells_codes: "NaN \<notin> set cells \<Longrightarrow> fill_cells m cells = cells"
  by (induction cells) (auto simp: fill_cells_def split: cell.splits)

lemma le_transform_codes: "le_transform classes col = Inr codes \<Longrightarrow> NaN \<notin> set codes"
  by (auto simp: le_transform_def split: if_splits)

lemma encode_column_parts:
  assumes "encode_column (df, les) c = Inr (df', les')"
  shows "\<exists>col classes codes. get_col df c = Inr col \<and> le_fit col = Inr classes \<and>
           le_transform classes col = Inr codes \<and> df' = set_col df c codes \<and>
           les' = les @ [(c, classes)]"
  using assms
  by (auto simp: encode_column_def bind_err_def split: sum.splits)

lemma label_encode_parts:
  assumes "label_encode df = Inr (df1, les)"
  shows "\<exists>col1 classes1 codes1 col2 classes2 codes2.
           get_col df ''complaint_type'' = Inr col1 \<and> le_fit col1 = Inr classes1 \<and>
           le_transform classes1 col1 = Inr codes1 \<and>
           get_col df ''transaction_frequency'' = Inr col2 \<and> le_fit col2 = Inr classes2 \<and>
           le_transform classes2 col2 = Inr codes2 \<and>
           df1 = set_col (set_col df ''complaint_type'' codes1) ''transaction_frequency'' codes2 \<and>
           les = [(''complaint_type'', classes1), (''transaction_frequency'', classes2)]"
proof -
  from assms obtain d l where
    1: "encode_column (df, []) ''complaint_type'' = Inr (d, l)" and
    2: "encode_column (d, l) ''transaction_frequency'' = Inr (df1, les)"
    by (auto simp: label_encode_def bind_err_def split: sum.splits)
  from encode_column_parts [OF 1] obtain col1 classes1 codes1 where
    a: "get_col df ''complaint_type'' = Inr col1" "le_fit col1 = Inr classes1"
      "le_transform classes1 col1 = Inr codes1" "d = set_col df ''complaint_type'' codes1"
      "l = [(''complaint_type'', classes1)]"
    by auto
  from encode_column_parts [OF 2] obtain col2 classes2 codes2 where
    b: "get_col d ''transaction_frequency'' = Inr col2" "le_fit col2 = Inr classes2"
      "le_transform classes2 col2 = Inr codes2" "df1 = set_col d ''transaction_frequency'' codes2"
      "les = l @ [(''transaction_frequency'', classes2)]"
    by auto
  have "get_col df ''transaction_frequency'' = Inr col2"
    using b(1) unfolding a(4) by (simp add: get_col_set_col_other)
  then show ?thesis using a b by auto
qed

lemma prepare_table_parts:
  assumes "prepare_table df = Inr (df', les)"
  shows "\<exists>df1. label_encode df = Inr (df1, les) \<and> df' = fillna_median df1"
  using assms by (auto simp: prepare_table_def bind_err_def split: sum.splits)

lemma prepare_table_other:
  assumes p: "prepare_table df = Inr (df', les)" and g: "get_col df n = Inr cells"
    and n: "n \<noteq> ''complaint_type''" "n \<noteq> ''transaction_frequency''"
  shows "get_col df' n = Inr (case col_median cells of None \<Rightarrow> cells | Some m \<Rightarrow> fill_cells m cells)"
proof -
  from prepare_table_parts [OF p] obtain df1 where
    1: "label_encode df = Inr (df1, les)" and 2: "df' = fillna_median df1" by auto
  from label_encode_parts [OF 1] obtain codes1 codes2 where
    3: "df1 = set_col (set_col df ''complaint_type'' codes1) ''transaction_frequency'' codes2"
    by auto
  have "get_col df1 n = Inr cells"
    unfolding 3 using n g by (simp add: get_col_set_col_other)
  then show ?thesis unfolding 2 by (rule get_col_fillna)
qed

lemma prepare_table_encoded:
  assumes p: "prepare_table df = Inr (df', les)" and g: "get_col df n = Inr cells"
    and n: "n = ''complaint_type'' \<or> n = ''transaction_frequency''"
  shows "\<exists>classes codes. le_fit cells = Inr classes \<and> le_transform classes cells = Inr codes \<and>
           map_of les n = Some classes \<and> get_col df' n = Inr codes"
proof -
  from prepare_table_parts [OF p] obtain df1 where
    1: "label_encode df = Inr (df1, les)" and 2: "df' = fillna_median df1" by auto
  from label_encode_parts [OF 1] obtain col1 classes1 codes1 col2 classes2 codes2 where
    3: "get_col df ''complaint_type'' = Inr col1" "le_fit col1 = Inr classes1"
      "le_transform classes1 col1 = Inr codes1"
      "get_col df ''transaction_frequency'' = Inr col2" "le_fit col2 = Inr classes2"
      "le_transform classes2 col2 = Inr codes2"
      "df1 = set_col (set_col df ''complaint_type'' codes1) ''transaction_frequency'' codes2"
      "les = [(''complaint_type'', classes1), (''transaction_frequency'', classes2)]"
    by blast
  have c1: "get_col df1 ''complaint_type'' = Inr codes1"
    unfolding 3(7) by (simp add: get_col_set_col_other get_col_set_col_same)
  have c2: "get_col df1 ''transaction_frequency'' = Inr codes2"
    unfolding 3(7) by (simp add: get_col_set_col_same)
  have f1: "get_col df' ''complaint_type'' = Inr codes1"
    unfolding 2 using get_col_fillna [OF c1] le_transform_codes [OF 3(3)]
    by (simp add: fill_cells_codes split: option.splits)
  have f2: "get_col df' ''transaction_frequency'' = Inr codes2"
    unfolding 2 using get_col_fillna [OF c2] le_transform_codes [OF 3(6)]
    by (simp add: fill_cells_codes split: option.splits)
  from n show ?thesis
  proof
    assume "n = ''complaint_type''"
    then show ?thesis using g 3 f1 by simp
  next
    assume "n = ''transaction_frequency''"
    then show ?thesis using g 3 f2 by simp
  qed
qed

lemma prepare_table_names:
  assumes p: "prepare_table df = Inr (df', les)"
  shows "map fst df' = map fst df"
proof -
  from prepare_table_parts [OF p] obtain df1 where
    1: "label_encode df = Inr (df1, les)" and 2: "df' = fillna_median df1" by auto
  from label_encode_parts [OF 1] obtain col1 codes1 col2 codes2 where
    3: "get_col df ''complaint_type'' = Inr col1"
      "get_col df ''transaction_frequency'' = Inr col2"
      "df1 = set_col (set_col df ''complaint_type'' codes1) ''transaction_frequency'' codes2"
    by blast
  have a: "map fst (set_col df ''complaint_type'' codes1) = map fst df"
    using get_col_names [OF 3(1)] by (rule names_set_col_present)
  have "''transaction_frequency'' \<in> set (map fst (set_col df ''complaint_type'' codes1))"
    unfolding a using get_col_names [OF 3(2)] .
  then have "map fst df1 = map fst (set_col df ''complaint_type'' codes1)"
    unfolding 3(3) by (rule names_set_col_present)
  then show ?thesis unfolding 2 by (simp add: names_fillna a)
qed

lemma missing_field_is_zero:
  assumes "k \<noteq> ''complaint_description''" "map_of kvs k = None"
  shows "feature_array L A (PyDict ((k, PyNum 0) # kvs)) = feature_array L A (PyDict kvs)"
  by (rule feature_array_reads) (use assms in \<open>auto simp: dict_get_def\<close>)

lemma demo_prepare: "prepare_table demo_frame = Inr (demo_prepared, demo_encoders)"
  by code_simp

lemma demo_prepare_filled: "prepare_table demo_frame_filled = Inr (demo_prepared, demo_encoders)"
  by code_simp

text \<open>
  C10 (amended). When the preparation of the table succeeds (line 69 as pandas 1.x runs
  it), the table keeps its columns, and for every column of the table as read: if it is
  not one of the two categorical columns, it comes out with each missing value replaced by
  the median of its present values when it holds no text and at least one present value,
  and unchanged otherwise, so that a missing complaint text stays missing and is read as
  the text \<open>nan\<close> on line 94; if it is one of the two categorical columns, its encoder
  has been fitted on the column as read, missing values included, and the column comes out
  as the codes of that encoder. Everything that follows (text features, balancing, scaling,
  tuning, fitting) is a function of the prepared table. At serving time a missing field
  other than the text is read as if it were 0.
\<close>

theorem prepare_table_fills:
  assumes "prepare_table df = Inr (df', les)" and "get_col df n = Inr cells"
  shows "map fst df' = map fst df \<and>
         (n \<noteq> ''complaint_type'' \<and> n \<noteq> ''transaction_frequency'' \<longrightarrow>
            get_col df' n =
              Inr (if is_numeric_col cells \<and> present_values cells \<noteq> []
                   then map (\<lambda>c. if c = NaN then Num (median (present_values cells)) else c) cells
                   else cells)) \<and>
         astype_str L NaN = ''nan'' \<and>
         (n = ''complaint_type'' \<or> n = ''transaction_frequency'' \<longrightarrow>
            (\<exists>classes codes. le_fit cells = Inr classes \<and> le_transform classes cells = Inr codes \<and>
               map_of les n = Some classes \<and> get_col df' n = Inr codes)) \<and>
         (\<forall>df2. prepare_table df2 = prepare_table df \<longrightarrow>
            build_features L M df2 = build_features L M df \<and>
            run_training L M df2 = run_training L M df) \<and>
         (\<forall>k kvs A. k \<noteq> ''complaint_description'' \<and> map_of kvs k = None \<longrightarrow>
            feature_array L A (PyDict ((k, PyNum 0) # kvs)) = feature_array L A (PyDict kvs))"
proof -
  have 1: "map fst df' = map fst df" using assms(1) by (rule prepare_table_names)
  have 2: "get_col df' n =
              Inr (if is_numeric_col cells \<and> present_values cells \<noteq> []
                   then map (\<lambda>c. if c = NaN then Num (median (present_values cells)) else c) cells
                   else cells)"
    if "n \<noteq> ''complaint_type''" "n \<noteq> ''transaction_frequency''"
    using prepare_table_other [OF assms that] by (simp add: col_median_def fill_cells_eq)
  have 3: "astype_str L NaN = ''nan''" by (simp add: astype_str_def)
  have 4: "\<exists>classes codes. le_fit cells = Inr classes \<and> le_transform classes cells = Inr codes \<and>
               map_of les n = Some classes \<and> get_col df' n = Inr codes"
    if "n = ''complaint_type'' \<or> n = ''transaction_frequency''"
    using assms that by (rule prepare_table_encoded)
  have 5: "build_features L M df2 = build_features L M df \<and> run_training L M df2 = run_training L M df"
    if "prepare_table df2 = prepare_table df" for df2
    using that by (simp add: run_training_def build_features_def)
  have 6: "feature_array L A (PyDict ((k, PyNum 0) # kvs)) = feature_array L A (PyDict kvs)"
    if "k \<noteq> ''complaint_description'' \<and> map_of kvs k = None" for k kvs A
    using that by (simp add: missing_field_is_zero)
  show ?thesis using 1 2 3 4 5 6 by blast
qed

text \<open>
  The theorem at a table of three complaints, for its columns \<open>resolution_time_days\<close>
  (4, missing, 10), \<open>complaint_description\<close> (one text missing), \<open>branch_code\<close> (all
  missing) and \<open>transaction_frequency\<close> (1, 5, missing); at the table with the missing
  resolution time written out as 7; and at a request without \<open>complaint_type\<close>.
\<close>

theorem prepare_table_fills_witness:
  "prepare_table demo_frame = Inr (demo_prepared, demo_encoders) \<and>
   get_col demo_frame ''resolution_time_days'' = Inr [Num 4, NaN, Num 10] \<and>
   get_col demo_prepared ''resolution_time_days'' = Inr [Num 4, Num 7, Num 10] \<and>
   get_col demo_prepared ''complaint_description''
     = Inr [Str ''My REFUND is late'', NaN, Str ''late refund''] \<and>
   get_col demo_prepared ''branch_code'' = Inr [NaN, NaN, NaN] \<and>
   (\<exists>classes. le_fit [Num 1, Num 5, NaN] = Inr classes \<and>
      map_of demo_encoders ''transaction_frequency'' = Some classes \<and>
      le_transform classes [Num 1, Num 5, NaN] = Inr [Num 0, Num 1, Num 2]) \<and>
   get_col demo_prepared ''transaction_frequency'' = Inr [Num 0, Num 1, Num 2] \<and>
   run_training demo_lib demo_ml demo_frame_filled = run_training demo_lib demo_ml demo_frame \<and>
   feature_array demo_lib demo_app
       (PyDict [(''complaint_type'', PyNum 0), (''complaint_description'', PyStr ''My REFUND is late'')])
     = feature_array demo_lib demo_app demo_short_request"
proof -
  have g: "get_col demo_frame ''resolution_time_days'' = Inr [Num 4, NaN, Num 10]"
    "get_col demo_frame ''complaint_description'' = Inr [Str ''My REFUND is late'', NaN, Str ''late refund'']"
    "get_col demo_frame ''branch_code'' = Inr [NaN, NaN, NaN]"
    "get_col demo_frame ''transaction_frequency'' = Inr [Num 1, Num 5, NaN]"
    by (simp_all add: get_col_def demo_frame_def)
  have m: "is_numeric_col [Num 4, NaN, Num 10]" "present_values [Num 4, NaN, Num 10] = [4, 10]"
    "median [4, 10] = 7" "\<not> is_numeric_col [Str ''My REFUND is late'', NaN, Str ''late refund'']"
    "present_values [NaN, NaN, NaN] = []"
    by (simp_all add: is_numeric_col_def present_values_def median_def)
  note t = prepare_table_fills [OF demo_prepare, of _ _ demo_lib demo_ml]
  note other = t [THEN conjunct2, THEN conjunct1, rule_format]
  note encoded = t [THEN conjunct2, THEN conjunct2, THEN conjunct2, THEN conjunct1, rule_format]
  note later = t [OF g(1), THEN conjunct2, THEN conjunct2, THEN conjunct2, THEN conjunct2,
      THEN conjunct1, rule_format]
  note serving = t [OF g(1), THEN conjunct2, THEN conjunct2, THEN conjunct2, THEN conjunct2,
      THEN conjunct2, rule_format]
  have 1: "get_col demo_prepared ''resolution_time_days'' = Inr [Num 4, Num 7, Num 10]"
    using other [OF g(1)] by (simp add: m)
  have 2: "get_col demo_prepared ''complaint_description''
             = Inr [Str ''My REFUND is late'', NaN, Str ''late refund'']"
    using other [OF g(2)] by (simp add: m)
  have 3: "get_col demo_prepared ''branch_code'' = Inr [NaN, NaN, NaN]"
    using other [OF g(3)] by (simp add: m)
  from encoded [OF g(4)] obtain classes codes where
    4: "le_fit [Num 1, Num 5, NaN] = Inr classes" "le_transform classes [Num 1, Num 5, NaN] = Inr codes"
      "map_of demo_encoders ''transaction_frequency'' = Some classes"
      "get_col demo_prepared ''transaction_frequency'' = Inr codes"
    by auto
  have 5: "get_col demo_prepared ''transaction_frequency'' = Inr [Num 0, Num 1, Num 2]"
    by (simp add: get_col_def demo_prepared_def)
  with 4(4) have "codes = [Num 0, Num 1, Num 2]" by simp
  with 4 have 8: "\<exists>classes. le_fit [Num 1, Num 5, NaN] = Inr classes \<and>
      map_of demo_encoders ''transaction_frequency'' = Some classes \<and>
      le_transform classes [Num 1, Num 5, NaN] = Inr [Num 0, Num 1, Num 2]"
    by blast
  have 6: "run_training demo_lib demo_ml demo_frame_filled = run_training demo_lib demo_ml demo_frame"
    by (rule later [THEN conjunct2]) (simp only: demo_prepare demo_prepare_filled)
  have 7: "feature_array demo_lib demo_app
       (PyDict [(''complaint_type'', PyNum 0), (''complaint_description'', PyStr ''My REFUND is late'')])
     = feature_array demo_lib demo_app demo_short_request"
    unfolding demo_short_request_def by (rule serving) simp
  show ?thesis
    by (intro conjI) (fact demo_prepare, fact g(1), fact 1, fact 2, fact 3, fact 8, fact 5, fact 6, fact 7)
qed

text \<open>
  C10 as stated fails, in three ways, on that table: the missing complaint text is still
  missing after the preparation (a text column has no median); the column without any
  present value is still missing throughout; and the missing \<open>transaction_frequency\<close>,
  whose column has the median 3, is not filled but kept as a category of its own by the
  encoder, which is fitted before the fill and gives it the code 2.
\<close>

theorem prepare_table_counterexample:
  "(\<exists>prepared les. prepare_table demo_frame = Inr (prepared, les) \<and>
      get_col prepared ''complaint_description''
        = Inr [Str ''My REFUND is late'', NaN, Str ''late refund''] \<and>
      get_col prepared ''branch_code'' = Inr [NaN, NaN, NaN] \<and>
      get_col prepared ''transaction_frequency'' = Inr [Num 0, Num 1, Num 2] \<and>
      map_of les ''transaction_frequency'' = Some [Num 1, Num 5, NaN]) \<and>
   get_col demo_frame ''transaction_frequency'' = Inr [Num 1, Num 5, NaN] \<and>
   median (present_values [Num 1, Num 5, NaN]) = 3"
proof -
  have "median (present_values [Num 1, Num 5, NaN]) = 3"
    by (simp add: present_values_def median_def)
  then show ?thesis
    using demo_prepare
    by (simp add: get_col_def demo_prepared_def demo_encoders_def demo_frame_def)
qed

section \<open>Properties of the categorical codes\<close>

lemma index_of_hd: "classes \<noteq> [] \<Longrightarrow> index_of classes (hd classes) = Some 0"
  by (cases classes) simp_all

lemma sort_remdups_Nil: "sort (remdups xs) = [] \<longleftrightarrow> xs = []"
proof -
  have "sort (remdups xs) = [] \<longleftrightarrow> remdups xs = []"
    by (metis length_0_conv length_sort)
  then show ?thesis by simp
qed

lemma le_fit_classes:
  assumes "le_fit col = Inr classes"
  shows "set classes \<subseteq> set col" and "col \<noteq> [] \<Longrightarrow> classes \<noteq> []"
proof -
  define strs where "strs = concat (map (\<lambda>c. case c of Str s \<Rightarrow> [s] | _ \<Rightarrow> []) col)"
  define nums where "nums = concat (map (\<lambda>c. case c of Num r \<Rightarrow> [r] | _ \<Rightarrow> []) col)"
  have cl: "classes = map Str (sort (remdups strs)) @ map Num (sort (remdups nums))
                   @ (if NaN \<in> set col then [NaN] else [])"
    using assms by (simp add: le_fit_def Let_def strs_def nums_def split: if_splits)
  have s: "s \<in> set strs \<longleftrightarrow> Str s \<in> set col" for s
    by (auto simp: strs_def split: cell.splits)
  have n: "r \<in> set nums \<longleftrightarrow> Num r \<in> set col" for r
    by (auto simp: nums_def split: cell.splits)
  show "set classes \<subseteq> set col"
    unfolding cl using s n by auto
  show "classes \<noteq> []" if "col \<noteq> []"
  proof -
    from that obtain c where c: "c \<in> set col" by (cases col) auto
    show ?thesis
    proof (cases c)
      case NaN
      then show ?thesis using c cl by simp
    next
      case (Num r)
      then have "nums \<noteq> []" using c n by auto
      then show ?thesis using cl by (simp add: sort_remdups_Nil)
    next
      case (Str x)
      then have "strs \<noteq> []" using c s by auto
      then show ?thesis using cl by (simp add: sort_remdups_Nil)
    qed
  qed
qed

lemma le_fit_first_class:
  assumes "le_fit col = Inr classes" "col \<noteq> []"
  shows "\<exists>x. x \<in> set col \<and> index_of classes x = Some 0"
proof -
  from le_fit_classes [OF assms(1)] assms(2)
  have "classes \<noteq> []" "set classes \<subseteq> set col" by simp_all
  then have "hd classes \<in> set col" by (cases classes) auto
  then show ?thesis using index_of_hd [OF \<open>classes \<noteq> []\<close>] by blast
qed

lemma le_transform_code:
  assumes "le_transform classes col = Inr codes" "x \<in> set col" "index_of classes x = Some i"
  shows "Num (real i) \<in> set codes"
proof -
  have "codes = map (\<lambda>c. Num (real (the (index_of classes c)))) col"
    using assms(1) by (simp add: le_transform_def split: if_splits)
  then show ?thesis using assms(2,3) by force
qed

lemma feature_array_categories:
  assumes "feature_array L A (PyDict kvs) = Inr arr"
  shows "arr ! 1 = (case map_of kvs ''complaint_type'' of None \<Rightarrow> PyNum 0 | Some x \<Rightarrow> x)"
    and "arr ! 2 = (case map_of kvs ''transaction_frequency'' of None \<Rightarrow> PyNum 0 | Some x \<Rightarrow> x)"
  using feature_array_entries [OF assms] by (auto simp: numeral_2_eq_2)

lemma predict_text_category:
  assumes "map_of kvs ''complaint_type'' = Some (PyStr c)
           \<or> map_of kvs ''transaction_frequency'' = Some (PyStr c)"
  shows "\<exists>e. predict L A (PyDict kvs) = ErrorResponse e"
  using feature_vector_text_refused [OF assms, of L A] predict_error by blast

lemma demo_short_array:
  "feature_array demo_lib demo_app demo_short_request
     = Inr ([PyNum (1 / 2), PyNum 0, PyNum 0] @ map PyNum (replicate 100 0) @ map PyNum (replicate 500 0))"
proof -
  have t: "dict_get demo_short_request ''complaint_description'' (PyStr []) = Inr (PyStr ''My REFUND is late'')"
    and ct: "dict_get demo_short_request ''complaint_type'' (PyNum 0) = Inr (PyNum 0)"
    and tf: "dict_get demo_short_request ''transaction_frequency'' (PyNum 0) = Inr (PyNum 0)"
    by (simp_all add: dict_get_def demo_short_request_def)
  have w: "(case app_w2v_model demo_app of Some wv \<Rightarrow> get_w2v_vector demo_lib wv ''refund late''
            | None \<Rightarrow> Inr (replicate 100 0)) = Inr (replicate 100 0)"
    by (simp add: demo_app_def)
  have p: "polarity demo_lib ''My REFUND is late'' = 1 / 2" by (simp add: demo_lib_def)
  have f: "app_tfidf demo_app = None" by (simp add: demo_app_def)
  from feature_array_built [OF t demo_clean w ct _ tf]
  show ?thesis by (simp add: is_array_def p f)
qed

lemma demo_le_fit:
  "le_fit [Str ''fraud'', Str ''billing'', Str ''fraud''] = Inr [Str ''billing'', Str ''fraud'']"
  by code_simp

lemma demo_le_transform:
  "le_transform [Str ''billing'', Str ''fraud''] [Str ''fraud'', Str ''billing'', Str ''fraud'']
     = Inr [Num 1, Num 0, Num 1]"
  by code_simp

text \<open>
  C5 (amended). In every array the service builds, the entry of \<open>complaint_type\<close> and
  the entry of \<open>transaction_frequency\<close> are the value the request sent, and 0 when the
  request sent none: no label encoding is consulted and no code is reserved. The code 0 is
  the code of a seen category: a label encoder fitted on a non-empty column gives it to a
  value of that column. A request whose \<open>complaint_type\<close> or \<open>transaction_frequency\<close>
  is a text, the name of a seen category or of an unseen one, is answered with an error.
  The handler itself never raises: every request is answered with a prediction or with an
  error.
\<close>

theorem category_served_as_sent:
  "(feature_array L A (PyDict kvs) = Inr arr \<longrightarrow>
      arr ! 1 = (case map_of kvs ''complaint_type'' of None \<Rightarrow> PyNum 0 | Some x \<Rightarrow> x) \<and>
      arr ! 2 = (case map_of kvs ''transaction_frequency'' of None \<Rightarrow> PyNum 0 | Some x \<Rightarrow> x)) \<and>
   (col \<noteq> [] \<and> le_fit col = Inr classes \<and> le_transform classes col = Inr codes \<longrightarrow>
      (\<exists>x. x \<in> set col \<and> index_of classes x = Some 0) \<and> Num 0 \<in> set codes) \<and>
   (map_of kvs ''complaint_type'' = Some (PyStr c)
      \<or> map_of kvs ''transaction_frequency'' = Some (PyStr c) \<longrightarrow>
      (\<exists>e. predict L A (PyDict kvs) = ErrorResponse e)) \<and>
   ((\<exists>p. predict L A data = Escalated p) \<or> (\<exists>e. predict L A data = ErrorResponse e))"
proof -
  have 1: "arr ! 1 = (case map_of kvs ''complaint_type'' of None \<Rightarrow> PyNum 0 | Some x \<Rightarrow> x) \<and>
      arr ! 2 = (case map_of kvs ''transaction_frequency'' of None \<Rightarrow> PyNum 0 | Some x \<Rightarrow> x)"
    if "feature_array L A (PyDict kvs) = Inr arr"
    using feature_array_categories [OF that] by simp
  have 2: "(\<exists>x. x \<in> set col \<and> index_of classes x = Some 0) \<and> Num 0 \<in> set codes"
    if "col \<noteq> [] \<and> le_fit col = Inr classes \<and> le_transform classes col = Inr codes"
  proof -
    from that le_fit_first_class [of col classes] obtain x where
      x: "x \<in> set col" "index_of classes x = Some 0" by blast
    from le_transform_code [OF _ x] that have "Num 0 \<in> set codes" by simp
    with x show ?thesis by blast
  qed
  have 3: "\<exists>e. predict L A (PyDict kvs) = ErrorResponse e"
    if "map_of kvs ''complaint_type'' = Some (PyStr c)
      \<or> map_of kvs ''transaction_frequency'' = Some (PyStr c)"
    using that by (rule predict_text_category)
  show ?thesis using 1 2 3 predict_answers [of L A data] by blast
qed

text \<open>The theorem at a request without categorical fields, at a request whose complaint
  type is the name of a category, and at a column of two categories.\<close>

theorem category_served_as_sent_witness:
  "(\<exists>arr. feature_array demo_lib demo_app demo_short_request = Inr arr \<and>
      arr ! 1 = PyNum 0 \<and> arr ! 2 = PyNum 0) \<and>
   le_fit [Str ''fraud'', Str ''billing'', Str ''fraud''] = Inr [Str ''billing'', Str ''fraud''] \<and>
   Num 0 \<in> set [Num 1, Num 0, Num (1::real)] \<and>
   (\<exists>e. predict demo_lib demo_app unseen_request = ErrorResponse e)"
proof -
  define arr where "arr = [PyNum (1 / 2), PyNum 0, PyNum 0] @ map PyNum (replicate 100 0)
                            @ map PyNum (replicate 500 0)"
  have a: "feature_array demo_lib demo_app
             (PyDict [(''complaint_description'', PyStr ''My REFUND is late'')]) = Inr arr"
    using demo_short_array by (simp only: arr_def demo_short_request_def)
  note t = category_served_as_sent [of demo_lib demo_app
      "[(''complaint_description'', PyStr ''My REFUND is late'')]" arr
      "[Str ''fraud'', Str ''billing'', Str ''fraud'']" "[Str ''billing'', Str ''fraud'']"
      "[Num 1, Num 0, Num 1]"]
  have 1: "arr ! 1 = PyNum 0 \<and> arr ! 2 = PyNum 0"
    using t [THEN conjunct1, rule_format, OF a] by simp
  have 2: "Num 0 \<in> set [Num 1, Num 0, Num (1::real)]"
    using t [THEN conjunct2, THEN conjunct1, rule_format] demo_le_fit demo_le_transform by simp
  have 3: "\<exists>e. predict demo_lib demo_app unseen_request = ErrorResponse e"
    unfolding unseen_request_def
    by (rule category_served_as_sent [THEN conjunct2, THEN conjunct2, THEN conjunct1, rule_format,
          of _ "''unknown_category_never_seen''"]) simp
  have 4: "\<exists>arr. feature_array demo_lib demo_app demo_short_request = Inr arr \<and>
      arr ! 1 = PyNum 0 \<and> arr ! 2 = PyNum 0"
    using a 1 unfolding demo_short_request_def by blast
  show ?thesis by (intro conjI) (fact 4, fact demo_le_fit, fact 2, fact 3)
qed

text \<open>
  C5 as stated fails, in two ways. The code served for a missing \<open>complaint_type\<close> is 0,
  which is the code of the seen category \<open>billing\<close> and not a reserved one. And a request
  whose \<open>complaint_type\<close> is a category that the training table did not hold is not
  mapped to any code: the service answers it with an error and gives no prediction.
\<close>

theorem unknown_code_counterexample:
  "(\<exists>arr. feature_array demo_lib demo_app demo_short_request = Inr arr \<and> arr ! 1 = PyNum 0) \<and>
   le_fit [Str ''fraud'', Str ''billing'', Str ''fraud''] = Inr [Str ''billing'', Str ''fraud''] \<and>
   index_of [Str ''billing'', Str ''fraud''] (Str ''billing'') = Some 0 \<and>
   le_transform [Str ''billing'', Str ''fraud''] [Str ''fraud'', Str ''billing'', Str ''fraud'']
     = Inr [Num 1, Num 0, Num 1] \<and>
   (\<exists>e. predict demo_lib demo_app unseen_request = ErrorResponse e) \<and>
   \<not> (\<exists>p. predict demo_lib demo_app unseen_request = Escalated p)"
proof -
  have 1: "\<exists>arr. feature_array demo_lib demo_app demo_short_request = Inr arr \<and> arr ! 1 = PyNum 0"
    using demo_short_array by simp
  have "\<exists>e. predict demo_lib demo_app unseen_request = ErrorResponse e"
    unfolding unseen_request_def by (rule predict_text_category) simp
  then have 2: "(\<exists>e. predict demo_lib demo_app unseen_request = ErrorResponse e) \<and>
      \<not> (\<exists>p. predict demo_lib demo_app unseen_request = Escalated p)"
    by auto
  show ?thesis using 1 2 demo_le_fit demo_le_transform by simp
qed

section \<open>Properties of the tuning and the final evaluation\<close>










section \<open>Properties of the stacking ensemble of the specification\<close>

lemma se_predict_after_fit:
  "se_predict ((se_fit E data) \<lparr> se_learners := ls \<rparr>) x =
     Inr (map fst (se_learners E),
          se_meta E (out_of_fold (se_learners E) (se_k E) data)
            (map (\<lambda>(name, l). l data x) (se_learners E)))"
  by (simp add: se_predict_def se_fit_def finish_fit_def begin_fit_def comp_def case_prod_unfold)

lemma se_fit_same: "(se_fit E data) \<lparr> se_learners := se_learners E \<rparr> = se_fit E data"
  by (simp add: se_fit_def finish_fit_def begin_fit_def)

text \<open>
  C8. In the ensemble of the specification, predict raises \<open>PreconditionError\<close> in every
  state other than fitted, so on a new ensemble and on one whose fit has begun and not
  completed; it returns a result only in the state fitted. After fit the identifiers used
  by predict are, in order, those captured at fit time, which are those of the base
  learners the ensemble was fitted with, also when the configured list is changed after
  the fit.
\<close>

theorem predict_requires_fit:
  "(se_phase E \<noteq> Fitted \<longrightarrow> se_predict E x = Inl PreconditionError) \<and>
   se_predict (new_ensemble ls m k) x = Inl PreconditionError \<and>
   se_predict (begin_fit E) x = Inl PreconditionError \<and>
   (\<forall>r. se_predict E x = Inr r \<longrightarrow> se_phase E = Fitted) \<and>
   se_fitted_ids (se_fit E data) = map fst (se_learners E) \<and>
   (\<exists>out. se_predict (se_fit E data) x = Inr (se_fitted_ids (se_fit E data), out)) \<and>
   (\<exists>out. se_predict ((se_fit E data) \<lparr> se_learners := ls' \<rparr>) x
            = Inr (se_fitted_ids (se_fit E data), out))"
proof -
  have ids: "se_fitted_ids (se_fit E data) = map fst (se_learners E)"
    by (simp add: se_fit_def finish_fit_def begin_fit_def)
  have "\<exists>out. se_predict ((se_fit E data) \<lparr> se_learners := l \<rparr>) x
            = Inr (se_fitted_ids (se_fit E data), out)" for l
    by (simp add: se_predict_after_fit ids)
  from this [of "se_learners E"] this [of ls'] ids show ?thesis
    by (simp add: se_fit_same) (simp add: se_predict_def new_ensemble_def begin_fit_def)
qed

text \<open>The theorem at the ensemble of the notebook: \<open>lgbm\<close>, \<open>xgb\<close>, \<open>cat\<close>.\<close>

theorem predict_requires_fit_witness:
  "se_phase (notebook_ensemble (demo_learner 1) (demo_learner 2) (demo_learner 3) demo_meta)
     \<noteq> Fitted \<and>
   se_predict (notebook_ensemble (demo_learner 1) (demo_learner 2) (demo_learner 3) demo_meta)
     [0, 0] = Inl PreconditionError \<and>
   (\<exists>out. se_predict
            (se_fit (notebook_ensemble (demo_learner 1) (demo_learner 2) (demo_learner 3) demo_meta)
               demo_samples) [0, 0] = Inr ([''lgbm'', ''xgb'', ''cat''], out))"
proof -
  let ?E = "notebook_ensemble (demo_learner 1) (demo_learner 2) (demo_learner 3) demo_meta"
  have p: "se_phase ?E \<noteq> Fitted" by (simp add: notebook_ensemble_def new_ensemble_def)
  have l: "map fst (se_learners ?E) = [''lgbm'', ''xgb'', ''cat'']"
    by (simp add: notebook_ensemble_def new_ensemble_def)
  from predict_requires_fit [of ?E "[0, 0]" "[]" demo_meta 5 demo_samples "[]"]
  have a: "se_phase ?E \<noteq> Fitted \<longrightarrow> se_predict ?E [0, 0] = Inl PreconditionError"
    and b: "se_fitted_ids (se_fit ?E demo_samples) = map fst (se_learners ?E)"
    and c: "\<exists>out. se_predict (se_fit ?E demo_samples) [0, 0]
              = Inr (se_fitted_ids (se_fit ?E demo_samples), out)"
    by blast+
  from c obtain out where "se_predict (se_fit ?E demo_samples) [0, 0]
              = Inr ([''lgbm'', ''xgb'', ''cat''], out)"
    unfolding b l by blast
  with a p show ?thesis by blast
qed

end
